theory Spec2Isabelle
  imports Main "HOL-Library.AList"
begin

section \<open>Python strings\<close>

text \<open>
  Python \<^verbatim>\<open>str\<close> values are modelled as \<^typ>\<open>string\<close>, one \<^typ>\<open>char\<close> per code point,
  restricted to code points below 256. The character classes below are those of Python 3
  on these code points: \<^verbatim>\<open>str.isspace\<close> (also what \<^verbatim>\<open>\s\<close> and \<^verbatim>\<open>str.strip()\<close> use) holds
  for 9 to 13, 28 to 32, 133 and 160; \<^verbatim>\<open>\d\<close> for \<^verbatim>\<open>0-9\<close>; \<^verbatim>\<open>str.isdigit\<close> also for the
  superscripts 178, 179 and 185; \<^verbatim>\<open>\w\<close> for the ASCII letters, digits and underscore and
  for 170, 178, 179, 181, 185, 186, 188 to 190, 192 to 214, 216 to 246 and 248 to 255;
  \<^verbatim>\<open>lower()\<close> adds 32 to 65 to 90, 192 to 214 and 216 to 222.
\<close>

definition code :: "char \<Rightarrow> nat" where
  "code c = of_char c"

definition is_space :: "char \<Rightarrow> bool" where
  "is_space c = ((9 \<le> code c \<and> code c \<le> 13) \<or> (28 \<le> code c \<and> code c \<le> 32)
                 \<or> code c = 133 \<or> code c = 160)"

definition is_digit :: "char \<Rightarrow> bool" where
  "is_digit c = (48 \<le> code c \<and> code c \<le> 57)"

definition is_upper :: "char \<Rightarrow> bool" where
  "is_upper c = (65 \<le> code c \<and> code c \<le> 90)"

definition is_lower :: "char \<Rightarrow> bool" where
  "is_lower c = (97 \<le> code c \<and> code c \<le> 122)"

definition is_word :: "char \<Rightarrow> bool" where
  "is_word c =
     (is_upper c \<or> is_lower c \<or> is_digit c \<or> c = CHR ''_''
      \<or> code c = 170 \<or> code c = 178 \<or> code c = 179 \<or> code c = 181 \<or> code c = 185
      \<or> code c = 186 \<or> (188 \<le> code c \<and> code c \<le> 190) \<or> (192 \<le> code c \<and> code c \<le> 214)
      \<or> (216 \<le> code c \<and> code c \<le> 246) \<or> (248 \<le> code c \<and> code c \<le> 255))"

definition lower_char :: "char \<Rightarrow> char" where
  "lower_char c =
     (if is_upper c \<or> (192 \<le> code c \<and> code c \<le> 214) \<or> (216 \<le> code c \<and> code c \<le> 222)
      then char_of (code c + 32) else c)"

text \<open>\<^verbatim>\<open>s.lower()\<close>\<close>

definition lower :: "string \<Rightarrow> string" where
  "lower s = map lower_char s"

text \<open>\<^verbatim>\<open>s.strip()\<close>\<close>

definition strip :: "string \<Rightarrow> string" where
  "strip s = rev (dropWhile is_space (rev (dropWhile is_space s)))"

text \<open>\<^verbatim>\<open>s.startswith(p)\<close>\<close>

fun startswith :: "string \<Rightarrow> string \<Rightarrow> bool" where
  "startswith s [] = True"
| "startswith [] (p # ps) = False"
| "startswith (c # cs) (p # ps) = (c = p \<and> startswith cs ps)"

text \<open>\<^verbatim>\<open>p in s\<close> for strings: \<open>p\<close> occurs in \<open>s\<close> as a contiguous substring.\<close>

fun contains :: "string \<Rightarrow> string \<Rightarrow> bool" where
  "contains p [] = (p = [])"
| "contains p (c # cs) = (startswith (c # cs) p \<or> contains p cs)"

text \<open>\<^verbatim>\<open>s.isdigit()\<close>\<close>

definition isdigit :: "string \<Rightarrow> bool" where
  "isdigit s =
     (s \<noteq> [] \<and> list_all (\<lambda>c. is_digit c \<or> code c = 178 \<or> code c = 179 \<or> code c = 185) s)"

text \<open>\<^verbatim>\<open>sep.join(xs)\<close>\<close>

fun join :: "string \<Rightarrow> string list \<Rightarrow> string" where
  "join sep [] = []"
| "join sep [x] = x"
| "join sep (x # y # ys) = x @ sep @ join sep (y # ys)"

text \<open>\<^verbatim>\<open>s.split('\n')\<close>: always at least one piece.\<close>

fun split_nl :: "string \<Rightarrow> string list" where
  "split_nl [] = [[]]"
| "split_nl (c # cs) =
     (if c = CHR 0x0A then [] # split_nl cs
      else (case split_nl cs of [] \<Rightarrow> [[c]] | l # ls \<Rightarrow> (c # l) # ls))"

text \<open>
  \<^verbatim>\<open>int(s)\<close> on a string of decimal digits. The callers apply it only to strings that
  matched \<^verbatim>\<open>\d+\<close>. The limit that recent Python versions put on the length of such a
  string (4300 digits by default) is outside the model.
\<close>

definition digit_val :: "char \<Rightarrow> int" where
  "digit_val c = int (code c) - 48"

definition int_of_digits :: "string \<Rightarrow> int" where
  "int_of_digits s = foldl (\<lambda>acc c. 10 * acc + digit_val c) 0 s"

section \<open>Regular expressions of the \<^verbatim>\<open>re\<close> module\<close>

text \<open>
  The patterns of the program use literals, character sets, \<^verbatim>\<open>.\<close>, greedy repetition of a
  single character set, sequence, alternation, capture groups and the anchors \<^verbatim>\<open>^\<close>, \<^verbatim>\<open>$\<close>
  and \<^verbatim>\<open>\b\<close>. A pattern is a term of \<open>re\<close>; \<open>rmatch\<close> lists every way the backtracking
  matcher can match at the current position, in the order the matcher tries them, so the
  head of the list is the match Python reports.
\<close>

datatype cset =
    Ch char           \<comment> \<open>a single character\<close>
  | Rng char char     \<comment> \<open>\<^verbatim>\<open>a-z\<close>\<close>
  | Digit             \<comment> \<open>\<^verbatim>\<open>\d\<close>\<close>
  | Space             \<comment> \<open>\<^verbatim>\<open>\s\<close>\<close>
  | Dot               \<comment> \<open>\<^verbatim>\<open>.\<close>: anything but a newline\<close>

fun in_cset :: "cset \<Rightarrow> char \<Rightarrow> bool" where
  "in_cset (Ch a) c = (c = a)"
| "in_cset (Rng a b) c = (code a \<le> code c \<and> code c \<le> code b)"
| "in_cset Digit c = is_digit c"
| "in_cset Space c = is_space c"
| "in_cset Dot c = (c \<noteq> CHR 0x0A)"

definition in_set :: "cset list \<Rightarrow> char \<Rightarrow> bool" where
  "in_set cs c = list_ex (\<lambda>k. in_cset k c) cs"

datatype re =
    Lit string                      \<comment> \<open>literal text\<close>
  | Set "cset list"                 \<comment> \<open>one character of a set\<close>
  | Rep "cset list" nat "nat option" \<comment> \<open>greedy \<^verbatim>\<open>{m,n}\<close>; \<open>None\<close> is no upper bound\<close>
  | Seq re re
  | Alt re re
  | Grp re                          \<comment> \<open>capture group\<close>
  | Bol                             \<comment> \<open>\<^verbatim>\<open>^\<close>\<close>
  | Eol                             \<comment> \<open>\<^verbatim>\<open>$\<close>: at the end, or before a final newline\<close>
  | Wb                              \<comment> \<open>\<^verbatim>\<open>\b\<close>\<close>

text \<open>
  A matcher state is the character before the position (\<open>None\<close> at the start of the
  string) and the rest of the input. A result carries the groups closed so far.
\<close>

type_synonym mstate = "char option \<times> string"

definition advance :: "mstate \<Rightarrow> nat \<Rightarrow> mstate" where
  "advance st k = (if k = 0 then st else (Some (snd st ! (k - 1)), drop k (snd st)))"

definition word_before :: "mstate \<Rightarrow> bool" where
  "word_before st = (case fst st of None \<Rightarrow> False | Some c \<Rightarrow> is_word c)"

definition word_after :: "mstate \<Rightarrow> bool" where
  "word_after st = (case snd st of [] \<Rightarrow> False | c # _ \<Rightarrow> is_word c)"

text \<open>The lengths a greedy repetition tries, longest first.\<close>

definition rep_lens :: "cset list \<Rightarrow> nat \<Rightarrow> nat option \<Rightarrow> string \<Rightarrow> nat list" where
  "rep_lens cs m n s =
     (let k = length (takeWhile (in_set cs) s);
          hi = (case n of None \<Rightarrow> k | Some b \<Rightarrow> min k b)
      in rev [m..<Suc hi])"

fun rmatch :: "re \<Rightarrow> mstate \<Rightarrow> (string list \<times> mstate) list" where
  "rmatch (Lit l) st = (if startswith (snd st) l then [([], advance st (length l))] else [])"
| "rmatch (Set cs) st =
     (case snd st of [] \<Rightarrow> [] | c # _ \<Rightarrow> if in_set cs c then [([], advance st 1)] else [])"
| "rmatch (Rep cs m n) st = map (\<lambda>k. ([], advance st k)) (rep_lens cs m n (snd st))"
| "rmatch (Seq r1 r2) st =
     concat (map (\<lambda>(g1, st1). map (\<lambda>(g2, st2). (g1 @ g2, st2)) (rmatch r2 st1)) (rmatch r1 st))"
| "rmatch (Alt r1 r2) st = rmatch r1 st @ rmatch r2 st"
| "rmatch (Grp r) st =
     map (\<lambda>(g, st1). (g @ [take (length (snd st) - length (snd st1)) (snd st)], st1)) (rmatch r st)"
| "rmatch Bol st = (if fst st = None then [([], st)] else [])"
| "rmatch Eol st = (if snd st = [] \<or> snd st = [CHR 0x0A] then [([], st)] else [])"
| "rmatch Wb st = (if word_before st \<noteq> word_after st then [([], st)] else [])"

text \<open>\<^verbatim>\<open>re.match(r, s)\<close>: the groups of the match at the start of \<open>s\<close>, if there is one.\<close>

definition re_match :: "re \<Rightarrow> string \<Rightarrow> string list option" where
  "re_match r s = (case rmatch r (None, s) of [] \<Rightarrow> None | (g, _) # _ \<Rightarrow> Some g)"

text \<open>
  \<^verbatim>\<open>re.findall(r, s)\<close>: the groups of the non-overlapping matches, scanning left to right.
  \<open>skip\<close> counts the characters still covered by the previous match.
\<close>

fun scan :: "re \<Rightarrow> mstate \<Rightarrow> nat \<Rightarrow> string list list" where
  "scan r (p, []) skip =
     (if skip = 0 then (case rmatch r (p, []) of [] \<Rightarrow> [] | (g, _) # _ \<Rightarrow> [g]) else [])"
| "scan r (p, c # cs) skip =
     (if skip > 0 then scan r (Some c, cs) (skip - 1)
      else (case rmatch r (p, c # cs) of
              [] \<Rightarrow> scan r (Some c, cs) 0
            | (g, st1) # _ \<Rightarrow> g # scan r (Some c, cs) (length cs - length (snd st1))))"

definition re_findall :: "re \<Rightarrow> string \<Rightarrow> string list list" where
  "re_findall r s = scan r (None, s) 0"

text \<open>\<^verbatim>\<open>re.search(r, s)\<close> used as a truth value: some position has a match.\<close>

fun search_from :: "re \<Rightarrow> mstate \<Rightarrow> bool" where
  "search_from r (p, []) = (rmatch r (p, []) \<noteq> [])"
| "search_from r (p, c # cs) = (rmatch r (p, c # cs) \<noteq> [] \<or> search_from r (Some c, cs))"

definition re_search :: "re \<Rightarrow> string \<Rightarrow> bool" where
  "re_search r s = search_from r (None, s)"

text \<open>\<^verbatim>\<open>re.sub(r'\s+', ' ', s)\<close>: every maximal run of whitespace becomes one space.\<close>

fun collapse_ws :: "string \<Rightarrow> string" where
  "collapse_ws [] = []"
| "collapse_ws [c] = (if is_space c then '' '' else [c])"
| "collapse_ws (c # d # cs) =
     (if is_space c then (if is_space d then collapse_ws (d # cs) else CHR '' '' # collapse_ws (d # cs))
      else c # collapse_ws (d # cs))"

section \<open>Data model (\<^verbatim>\<open>schema.py\<close>, \<^verbatim>\<open>config.py\<close>)\<close>

text \<open>\<^verbatim>\<open>Pin.number\<close> is \<^verbatim>\<open>int | str\<close>; \<^verbatim>\<open>Pin.details\<close> is an optional dictionary.\<close>

datatype pin_number = Num int | Alnum string

datatype detail_value = Text string | Names "string list"

record Pin =
  number :: pin_number
  name :: string
  details :: "(string \<times> detail_value) list option"

definition MIN_PIN_NAME_LENGTH :: nat where
  "MIN_PIN_NAME_LENGTH = 1"

definition MAX_PIN_NAME_LENGTH :: nat where
  "MAX_PIN_NAME_LENGTH = 30"

definition DEFAULT_MAX_PAGES :: nat where
  "DEFAULT_MAX_PAGES = 15"

text \<open>
  A table of \<^verbatim>\<open>pdfplumber\<close> is a list of rows, a row a list of cells, a cell a string or
  \<^verbatim>\<open>None\<close>. A page offers its text (\<^verbatim>\<open>extract_text()\<close>) and its tables
  (\<^verbatim>\<open>extract_tables()\<close>).
\<close>

type_synonym cell = "string option"
type_synonym row = "cell list"
type_synonym table = "row list"

record page =
  page_text :: "string option"
  page_tables :: "table list"

text \<open>Truth value of an optional string: neither \<^verbatim>\<open>None\<close> nor empty.\<close>

definition truthy :: "cell \<Rightarrow> bool" where
  "truthy c = (case c of None \<Rightarrow> False | Some s \<Rightarrow> s \<noteq> [])"

text \<open>\<^verbatim>\<open>str(c)\<close> of a cell.\<close>

definition str :: "cell \<Rightarrow> string" where
  "str c = (case c of None \<Rightarrow> ''None'' | Some s \<Rightarrow> s)"

section \<open>Structural table strategy (\<^verbatim>\<open>extractors/table_extractor.py\<close>)\<close>

subsection \<open>Header row\<close>

text \<open>\<^verbatim>\<open>str(h).lower().strip() if h else ""\<close>\<close>

definition norm_cell :: "cell \<Rightarrow> string" where
  "norm_cell h = (if truthy h then strip (lower (str h)) else [])"

text \<open>
  Lines 163 to 176: the header row and the index of the first data row. The caller has
  checked \<^verbatim>\<open>len(table) >= 2\<close>. \<^verbatim>\<open>headers.count("") > len(headers) / 2\<close> is a comparison
  of an integer with a float; it is written here without the division.
\<close>

definition select_headers :: "table \<Rightarrow> string list \<times> nat" where
  "select_headers tbl =
     (let headers = map collapse_ws (map norm_cell (tbl ! 0)) in
      if 2 * count_list headers [] > length headers \<or> \<not> list_ex (contains ''name'') headers
      then
        (if length tbl > 2
         then
           (let headers_row2 = map norm_cell (tbl ! 1) in
            if list_ex (\<lambda>keyword. contains keyword (join '' '' headers_row2))
                 [''name'', ''type'', ''description'']
            then (headers_row2, 2)
            else (headers, 1))
         else (headers, 1))
      else (headers, 1))"

subsection \<open>Column roles\<close>

text \<open>Sequences and alternations of several patterns.\<close>

fun seqs :: "re list \<Rightarrow> re" where
  "seqs [] = Lit []"
| "seqs [r] = r"
| "seqs (r # rs) = Seq r (seqs rs)"

fun alts :: "re \<Rightarrow> re list \<Rightarrow> re" where
  "alts r [] = r"
| "alts r (q # qs) = Alt r (alts q qs)"

abbreviation ws0 :: re where
  "ws0 \<equiv> Rep [Space] 0 None"

abbreviation ws1 :: re where
  "ws1 \<equiv> Rep [Space] 1 None"

abbreviation digits1 :: re where
  "digits1 \<equiv> Rep [Digit] 1 None"

text \<open>\<^verbatim>\<open>r'pin\s*#?|pin\s*no|pin\s*num'\<close>\<close>

definition re_pin_header :: re where
  "re_pin_header =
     alts (seqs [Lit ''pin'', ws0, Rep [Ch CHR ''#''] 0 (Some 1)])
          [seqs [Lit ''pin'', ws0, Lit ''no''], seqs [Lit ''pin'', ws0, Lit ''num'']]"

text \<open>\<^verbatim>\<open>r'\bname\b|signal|function|device'\<close>\<close>

definition re_name_header :: re where
  "re_name_header =
     alts (seqs [Wb, Lit ''name'', Wb]) [Lit ''signal'', Lit ''function'', Lit ''device'']"

text \<open>\<^verbatim>\<open>r'^i\s*/\s*o\s+type'\<close>\<close>

definition re_io_type_header :: re where
  "re_io_type_header = seqs [Bol, Lit ''i'', ws0, Lit ''/'', ws0, Lit ''o'', ws1, Lit ''type'']"

text \<open>\<^verbatim>\<open>r'input.*output|output.*input|direction'\<close>\<close>

definition re_direction_header :: re where
  "re_direction_header =
     alts (seqs [Lit ''input'', Rep [Dot] 0 None, Lit ''output''])
          [seqs [Lit ''output'', Rep [Dot] 0 None, Lit ''input''], Lit ''direction'']"

text \<open>\<^verbatim>\<open>r'\bi\s*/\s*o\b'\<close>\<close>

definition re_io_token :: re where
  "re_io_token = seqs [Wb, Lit ''i'', ws0, Lit ''/'', ws0, Lit ''o'', Wb]"

text \<open>\<^verbatim>\<open>r'^\d+$'\<close>\<close>

definition re_all_digits :: re where
  "re_all_digits = seqs [Bol, digits1, Eol]"

text \<open>\<^verbatim>\<open>r'^[A-Z]{3}\d{4}'\<close>\<close>

definition re_part_number :: re where
  "re_part_number =
     seqs [Bol, Rep [Rng CHR ''A'' CHR ''Z''] 3 (Some 3), Rep [Digit] 4 (Some 4)]"

text \<open>\<^verbatim>\<open>re.match(...)\<close> used as a truth value.\<close>

definition matches :: "re \<Rightarrow> string \<Rightarrow> bool" where
  "matches r s = (re_match r s \<noteq> None)"

record roles =
  pin_idx :: "nat option"
  name_idx :: "nat option"
  type_idx :: "nat option"
  direction_idx :: "nat option"
  description_idx :: "nat option"

definition no_roles :: roles where
  "no_roles = \<lparr>pin_idx = None, name_idx = None, type_idx = None, direction_idx = None,
               description_idx = None\<rparr>"

text \<open>
  Lines 188 to 234: the body of \<^verbatim>\<open>for i, h in enumerate(headers)\<close>. The pin role is
  overwritten by every matching header, the other roles keep their first match. The
  \<^verbatim>\<open>continue\<close> of the \<^verbatim>\<open>I/O TYPE\<close> branch skips the type, direction and description tests.
\<close>

definition classify_header :: "roles \<Rightarrow> nat \<times> string \<Rightarrow> roles" where
  "classify_header r ih =
     (let i = fst ih; h_lower = lower (snd ih);
          r1 = (if re_search re_pin_header h_lower \<and> \<not> contains ''description'' h_lower
                then r\<lparr>pin_idx := Some i\<rparr> else r);
          r2 = (if re_search re_name_header h_lower \<and> \<not> contains ''description'' h_lower
                   \<and> \<not> contains ''package'' h_lower \<and> \<not> contains ''orderable'' h_lower
                   \<and> \<not> contains ''reel'' h_lower \<and> \<not> contains ''spq'' h_lower
                   \<and> name_idx r1 = None
                then r1\<lparr>name_idx := Some i\<rparr> else r1)
      in if matches re_io_type_header h_lower
         then
           (let r3 = (if type_idx r2 = None then r2\<lparr>type_idx := Some i\<rparr> else r2)
            in (if direction_idx r3 = None then r3\<lparr>direction_idx := Some i\<rparr> else r3))
         else
           (let r3 = (if (h_lower = ''type'' \<or> contains ''analog'' h_lower
                            \<or> contains ''digital'' h_lower)
                         \<and> \<not> contains ''description'' h_lower \<and> type_idx r2 = None
                      then
                        (if (contains ''input'' h_lower \<or> contains ''output'' h_lower)
                            \<and> direction_idx r2 = None
                         then r2\<lparr>type_idx := Some i, direction_idx := Some i\<rparr>
                         else r2\<lparr>type_idx := Some i\<rparr>)
                      else r2);
                r4 = (if re_search re_direction_header h_lower \<and> \<not> contains ''type'' h_lower
                         \<and> re_search re_io_token h_lower \<and> direction_idx r3 = None
                      then r3\<lparr>direction_idx := Some i\<rparr> else r3)
            in (if contains ''description'' h_lower \<and> description_idx r4 = None
                then r4\<lparr>description_idx := Some i\<rparr> else r4)))"

definition classify_headers :: "string list \<Rightarrow> roles" where
  "classify_headers headers = foldl classify_header no_roles (enumerate 0 headers)"

text \<open>
  Lines 238 to 253: when the name column is column 0 and no pin column was found, the
  first of the columns 1 to 3 that holds a number in one of the first three data rows
  becomes the pin column.
\<close>

definition has_numbers :: "table \<Rightarrow> nat \<Rightarrow> nat \<Rightarrow> bool" where
  "has_numbers tbl data_start_idx test_col =
     list_ex (\<lambda>row. length row > test_col \<and> truthy (row ! test_col)
                     \<and> matches re_all_digits (strip (str (row ! test_col))))
             (take 3 (drop data_start_idx tbl))"

definition probe_pin_column :: "table \<Rightarrow> string list \<Rightarrow> nat \<Rightarrow> roles \<Rightarrow> roles" where
  "probe_pin_column tbl headers data_start_idx r =
     (if name_idx r = Some 0 \<and> pin_idx r = None
      then (case find (has_numbers tbl data_start_idx) [1..<min 4 (length headers)] of
              None \<Rightarrow> r
            | Some test_col \<Rightarrow> r\<lparr>pin_idx := Some test_col\<rparr>)
      else r)"

text \<open>Line 266: the packaging test on the joined headers.\<close>

definition is_packaging_table :: "string list \<Rightarrow> bool" where
  "is_packaging_table headers =
     list_ex (\<lambda>kw. contains kw (join '' '' headers))
       [''reel diameter'', ''length(mm)'', ''width(mm)'', ''height(mm)'']"

subsection \<open>Rows\<close>

text \<open>\<^verbatim>\<open>str(row[i]).strip() if row[i] else ""\<close>\<close>

definition cell_text :: "cell \<Rightarrow> string" where
  "cell_text c = (if truthy c then strip (str c) else [])"

text \<open>
  The cell value of an optional column as lines 313, 338, 354 and 369 read it: present
  only when the role is filled, the row is long enough and the cell is not empty.
\<close>

definition role_cell :: "nat option \<Rightarrow> row \<Rightarrow> string option" where
  "role_cell idx row =
     (case idx of
        None \<Rightarrow> None
      | Some i \<Rightarrow> if length row > i \<and> truthy (row ! i) then Some (str (row ! i)) else None)"

text \<open>Lines 320 to 329, on the lowered cell text.\<close>

definition type_of_text :: "string \<Rightarrow> string option" where
  "type_of_text type_lower =
     (if contains ''analog'' type_lower \<and> contains ''digital'' type_lower
      then Some ''Analog/Digital''
      else if contains ''analog'' type_lower then Some ''Analog''
      else if contains ''digital'' type_lower then Some ''Digital''
      else if contains ''power'' type_lower \<or> contains ''supply'' type_lower then Some ''Power''
      else if contains ''ground'' type_lower \<or> type_lower = ''gnd'' \<or> type_lower = ''ground''
      then Some ''Ground''
      else None)"

text \<open>Lines 312 to 335.\<close>

definition pin_type_of :: "roles \<Rightarrow> row \<Rightarrow> string option" where
  "pin_type_of r row =
     (case type_idx r of
        None \<Rightarrow> None
      | Some t \<Rightarrow>
          if length row > t \<and> truthy (row ! t)
          then
            (case type_of_text (lower (collapse_ws (strip (str (row ! t))))) of
               Some pin_type \<Rightarrow> Some pin_type
             | None \<Rightarrow>
                 if t + 1 < length row \<and> truthy (row ! (t + 1))
                    \<and> (contains ''supply'' (lower (strip (str (row ! (t + 1)))))
                         \<or> contains ''power'' (lower (strip (str (row ! (t + 1))))))
                 then Some ''Power'' else None)
          else None)"

text \<open>Lines 345 to 350, on the lowered text of the direction cell.\<close>

definition direction_of_text :: "string \<Rightarrow> string option" where
  "direction_of_text dir_lower =
     (if contains ''i/o'' dir_lower \<or> contains ''i / o'' dir_lower
         \<or> contains ''bidirectional'' dir_lower \<or> contains ''input/output'' dir_lower
         \<or> contains ''inout'' dir_lower
      then Some ''I/O''
      else if contains ''output'' dir_lower then Some ''Output''
      else if contains ''input'' dir_lower then Some ''Input''
      else None)"

text \<open>Lines 361 to 366, on the lowered text of the type cell.\<close>

definition direction_of_type_text :: "string \<Rightarrow> string option" where
  "direction_of_type_text type_lower =
     (if contains ''i/o'' type_lower \<or> contains ''i / o'' type_lower
         \<or> contains ''input/output'' type_lower \<or> contains ''input / output'' type_lower
      then Some ''I/O''
      else if contains ''output'' type_lower then Some ''Output''
      else if contains ''input'' type_lower then Some ''Input''
      else None)"

text \<open>Lines 337 to 366.\<close>

definition direction_of :: "roles \<Rightarrow> row \<Rightarrow> string option" where
  "direction_of r row =
     (let direction = (case role_cell (direction_idx r) row of
                         None \<Rightarrow> None
                       | Some v \<Rightarrow> direction_of_text (lower (collapse_ws (strip v))))
      in case role_cell (type_idx r) row of
           None \<Rightarrow> direction
         | Some v \<Rightarrow>
             (if direction = None then direction_of_type_text (lower (collapse_ws (strip v)))
              else direction))"

text \<open>Lines 368 to 372.\<close>

definition description_of :: "roles \<Rightarrow> row \<Rightarrow> string option" where
  "description_of r row =
     (case role_cell (description_idx r) row of
        None \<Rightarrow> None
      | Some v \<Rightarrow> if length (strip v) > 3 then Some (strip v) else None)"

text \<open>Lines 375 to 381 and 387: the dictionary of the attributes found, or \<^verbatim>\<open>None\<close>.\<close>

definition entry :: "string \<Rightarrow> string option \<Rightarrow> (string \<times> detail_value) list" where
  "entry k v = (case v of None \<Rightarrow> [] | Some s \<Rightarrow> if s = [] then [] else [(k, Text s)])"

definition build_details ::
  "string option \<Rightarrow> string option \<Rightarrow> string option \<Rightarrow> (string \<times> detail_value) list option" where
  "build_details pin_type direction description =
     (let d = entry ''type'' pin_type @ entry ''direction'' direction
              @ entry ''description'' description
      in if d = [] then None else Some d)"

text \<open>\<^verbatim>\<open>max(i for i in [...] if i is not None)\<close>; the caller has a pin and a name column.\<close>

definition max_idx :: "roles \<Rightarrow> nat" where
  "max_idx r =
     foldr max (List.map_filter id
       [pin_idx r, name_idx r, type_idx r, direction_idx r, description_idx r]) 0"

text \<open>
  Lines 272 to 390: the body of \<^verbatim>\<open>for row in table[data_start_idx:]\<close>, for a table with
  pin column \<open>p\<close> and name column \<open>n\<close>. \<open>None\<close> is a \<^verbatim>\<open>continue\<close>.
\<close>

definition row_candidate :: "roles \<Rightarrow> nat \<Rightarrow> nat \<Rightarrow> row \<Rightarrow> (int \<times> Pin) option" where
  "row_candidate r p n row =
     (let cleaned_row = filter (\<lambda>c. c \<noteq> None \<and> strip (str c) \<noteq> []) row in
      if length cleaned_row < 2 then None
      else if length row \<le> max_idx r then None
      else
        (let pin_num0 = cell_text (row ! p);
             pin_num = (if pin_num0 = [] \<and> p + 1 < length row \<and> truthy (row ! (p + 1))
                        then strip (str (row ! (p + 1))) else pin_num0);
             nm = cell_text (row ! n)
         in if \<not> matches re_all_digits pin_num then None
            else if int_of_digits pin_num = 0 then None
            else if length nm < MIN_PIN_NAME_LENGTH \<or> length nm > MAX_PIN_NAME_LENGTH then None
            else if isdigit nm \<and> length nm \<le> 2 then None
            else if matches re_part_number nm then None
            else Some (int_of_digits pin_num,
                       \<lparr>number = Num (int_of_digits pin_num), name = nm,
                        details = build_details (pin_type_of r row) (direction_of r row)
                                    (description_of r row)\<rparr>)))"

text \<open>Lines 157 to 390: the candidates of one table, in row order.\<close>

definition table_candidates :: "table \<Rightarrow> (int \<times> Pin) list" where
  "table_candidates tbl =
     (if length tbl < 2 then []
      else
        (let headers = fst (select_headers tbl);
             data_start_idx = snd (select_headers tbl);
             r = probe_pin_column tbl headers data_start_idx (classify_headers headers)
         in case (pin_idx r, name_idx r) of
              (Some p, Some n) \<Rightarrow>
                if is_packaging_table headers then []
                else List.map_filter (row_candidate r p n) (drop data_start_idx tbl)
            | _ \<Rightarrow> []))"

text \<open>Lines 150 to 157: the first 50 pages, each page's tables in order.\<close>

definition candidates_from_tables :: "page list \<Rightarrow> (int \<times> Pin) list" where
  "candidates_from_tables pages =
     concat (map (\<lambda>pg. concat (map table_candidates (page_tables pg))) (take 50 pages))"

subsection \<open>Text-line fallback\<close>

text \<open>\<^verbatim>\<open>r'^(\d+)\s+([A-Z][A-Z0-9/_\-]{1,20})\s+(.+)'\<close>\<close>

definition re_text_line :: re where
  "re_text_line =
     seqs [Bol, Grp digits1, ws1,
           Grp (Seq (Set [Rng CHR ''A'' CHR ''Z''])
                    (Rep [Rng CHR ''A'' CHR ''Z'', Rng CHR ''0'' CHR ''9'', Ch CHR ''/'',
                          Ch CHR ''_'', Ch CHR ''-''] 1 (Some 20))),
           ws1, Grp (Rep [Dot] 1 None)]"

text \<open>\<^verbatim>\<open>r'^[A-Z]'\<close>\<close>

definition re_upper_start :: re where
  "re_upper_start = Seq Bol (Set [Rng CHR ''A'' CHR ''Z''])"

text \<open>\<^verbatim>\<open>r'^DR$'\<close>, \<^verbatim>\<open>r'^\d+$'\<close>, \<^verbatim>\<open>r'^[A-Z]S$'\<close>, \<^verbatim>\<open>r'^T[A-Z]$'\<close>\<close>

definition false_positive_patterns :: "re list" where
  "false_positive_patterns =
     [seqs [Bol, Lit ''DR'', Eol],
      seqs [Bol, digits1, Eol],
      seqs [Bol, Set [Rng CHR ''A'' CHR ''Z''], Lit ''S'', Eol],
      seqs [Bol, Lit ''T'', Set [Rng CHR ''A'' CHR ''Z''], Eol]]"

text \<open>\<^verbatim>\<open>r'^[=<>]|^\d+$'\<close>\<close>

definition re_formula :: re where
  "re_formula =
     Alt (Seq Bol (Set [Ch CHR ''='', Ch CHR ''<'', Ch CHR ''>'']))
         (seqs [Bol, digits1, Eol])"

text \<open>
  Lines 412 to 460: the body of \<^verbatim>\<open>for line in text.split('\n')\<close>; the candidates found
  so far go in and come out.
\<close>

definition text_line_step :: "(int \<times> Pin) list \<Rightarrow> string \<Rightarrow> (int \<times> Pin) list" where
  "text_line_step candidates line =
     (case re_match re_text_line (strip line) of
        Some [g1, g2, g3] \<Rightarrow>
          (let pin_num = int_of_digits g1; nm = strip g2; desc = strip g3 in
           if pin_num = 0 then candidates
           else if pin_num > 256 then candidates
           else if list_ex (\<lambda>p. fst p = pin_num) candidates then candidates
           else if \<not> matches re_upper_start nm then candidates
           else if list_ex (\<lambda>pattern. matches pattern nm) false_positive_patterns
           then candidates
           else if length nm \<ge> MIN_PIN_NAME_LENGTH \<and> length nm \<le> MAX_PIN_NAME_LENGTH
           then
             (if matches re_formula desc then candidates
              else candidates @
                     [(pin_num, \<lparr>number = Num pin_num, name = nm,
                                 details = (if desc \<noteq> [] then Some [(''description'', Text desc)]
                                            else None)\<rparr>)])
           else candidates)
      | _ \<Rightarrow> candidates)"

text \<open>Lines 406 to 412: a page without text is skipped.\<close>

definition text_page_step :: "(int \<times> Pin) list \<Rightarrow> page \<Rightarrow> (int \<times> Pin) list" where
  "text_page_step candidates pg =
     (if truthy (page_text pg) then foldl text_line_step candidates (split_nl (str (page_text pg)))
      else candidates)"

definition text_fallback :: "(int \<times> Pin) list \<Rightarrow> page list \<Rightarrow> (int \<times> Pin) list" where
  "text_fallback candidates pages = foldl text_page_step candidates (take 50 pages)"

subsection \<open>Merge and result\<close>

text \<open>
  A dictionary is an association list in insertion order with one entry per key:
  \<open>AList.update k v d\<close> is \<^verbatim>\<open>d[k] = v\<close> (an existing key keeps its place), and
  \<open>dict_get d k\<close> is \<^verbatim>\<open>d[k]\<close> for a key of \<open>d\<close>.
\<close>

definition dict_get :: "('k \<times> 'v) list \<Rightarrow> 'k \<Rightarrow> 'v" where
  "dict_get d k = the (map_of d k)"

text \<open>Lines 480 to 483: \<^verbatim>\<open>if pin_num not in seen: seen[pin_num] = pin_obj\<close>.\<close>

definition keep_first :: "(int \<times> Pin) list \<Rightarrow> int \<times> Pin \<Rightarrow> (int \<times> Pin) list" where
  "keep_first seen c =
     (if fst c \<notin> set (map fst seen) then AList.update (fst c) (snd c) seen else seen)"

text \<open>Lines 480 to 486.\<close>

definition merge_candidates :: "(int \<times> Pin) list \<Rightarrow> Pin list" where
  "merge_candidates candidates =
     (let seen = foldl keep_first [] candidates
      in map (dict_get seen) (sort (map fst seen)))"

text \<open>
  The metadata dictionary of \<^verbatim>\<open>extract_metadata_from_text\<close>. It always has its five keys,
  so as a truth value it is true.
\<close>

record Metadata =
  md_part_number :: "string option"
  md_title :: "string option"
  md_description :: "string option"
  md_features :: "string list"
  md_applications :: "string list"

record extraction =
  pins :: "Pin list"
  metadata :: "Metadata option"

text \<open>
  \<^verbatim>\<open>extract_pins_from_tables\<close>. The argument is what \<^verbatim>\<open>pdfplumber.open\<close> gives: the pages, or
  \<open>None\<close> when the library is missing or the document cannot be read (lines 130 to 133 and
  391 to 396). \<open>scan_metadata\<close> stands for \<^verbatim>\<open>extract_metadata_from_text\<close>, whose scan of the
  first page's text no property below depends on.
\<close>

definition first_page_metadata :: "(string \<Rightarrow> Metadata) \<Rightarrow> page list \<Rightarrow> Metadata option" where
  "first_page_metadata scan_metadata pages =
     (case pages of
        [] \<Rightarrow> None
      | pg # _ \<Rightarrow> if truthy (page_text pg) then Some (scan_metadata (str (page_text pg)))
                  else None)"

definition all_candidates :: "page list \<Rightarrow> (int \<times> Pin) list" where
  "all_candidates pages = text_fallback (candidates_from_tables pages) pages"

definition extract_pins_from_tables ::
  "(string \<Rightarrow> Metadata) \<Rightarrow> page list option \<Rightarrow> extraction option" where
  "extract_pins_from_tables scan_metadata pdf =
     (case pdf of
        None \<Rightarrow> None
      | Some pages \<Rightarrow>
          (let md = first_page_metadata scan_metadata pages;
               candidates = all_candidates pages
           in if candidates = []
              then (case md of
                      Some m \<Rightarrow> Some \<lparr>pins = [], metadata = Some m\<rparr>
                    | None \<Rightarrow> None)
              else Some \<lparr>pins = merge_candidates candidates, metadata = md\<rparr>))"

section \<open>Diagram recognition strategy (\<^verbatim>\<open>extractors/ocr_extractor.py\<close>)\<close>

text \<open>The token set \<^verbatim>\<open>[A-Za-z0-9_/.-]\<close>.\<close>

definition token_set :: "cset list" where
  "token_set =
     [Rng CHR ''A'' CHR ''Z'', Rng CHR ''a'' CHR ''z'', Rng CHR ''0'' CHR ''9'', Ch CHR ''_'',
      Ch CHR ''/'', Ch CHR ''.'', Ch CHR ''-'']"

text \<open>\<^verbatim>\<open>r"([A-Za-z0-9_/.-]+)\s+(\d{1,3})"\<close>\<close>

definition pattern_A :: re where
  "pattern_A = seqs [Grp (Rep token_set 1 None), ws1, Grp (Rep [Digit] 1 (Some 3))]"

text \<open>\<^verbatim>\<open>r"(\d{1,3})\s+([A-Za-z0-9_/.-]+)"\<close>\<close>

definition pattern_B :: re where
  "pattern_B = seqs [Grp (Rep [Digit] 1 (Some 3)), ws1, Grp (Rep token_set 1 None)]"

text \<open>Lines 54 to 57: the pairs of the name-then-number shape.\<close>

definition pairs_A :: "string \<Rightarrow> (int \<times> string) list" where
  "pairs_A txt =
     List.map_filter
       (\<lambda>m. case m of
               [nm, pin] \<Rightarrow> if matches re_all_digits pin then Some (int_of_digits pin, nm)
                             else None
             | _ \<Rightarrow> None)
       (re_findall pattern_A txt)"

text \<open>Lines 59 to 62: the pairs of the number-then-name shape.\<close>

definition pairs_B :: "string \<Rightarrow> (int \<times> string) list" where
  "pairs_B txt =
     List.map_filter
       (\<lambda>m. case m of
               [pin, nm] \<Rightarrow> if matches re_all_digits pin then Some (int_of_digits pin, nm)
                             else None
             | _ \<Rightarrow> None)
       (re_findall pattern_B txt)"

text \<open>Lines 68 to 70: \<^verbatim>\<open>cleaned[pin] = name\<close> for every pair in turn.\<close>

definition cleaned_of :: "(int \<times> string) list \<Rightarrow> (int \<times> string) list" where
  "cleaned_of pairs = foldl (\<lambda>cleaned p. AList.update (fst p) (snd p) cleaned) [] pairs"

text \<open>Lines 64 to 72, from the pooled pairs on.\<close>

definition names_of_pairs :: "(int \<times> string) list \<Rightarrow> string list option" where
  "names_of_pairs pairs =
     (if pairs = [] then None
      else Some (map (dict_get (cleaned_of pairs)) (sort (map fst (cleaned_of pairs)))))"

text \<open>
  \<^verbatim>\<open>extract_pins_from_ocr\<close>. The argument is the text recognized on the images of the first
  three pages, or \<open>None\<close> when the recognition libraries are missing or the pages cannot be
  rendered (lines 30 to 40).
\<close>

definition extract_pins_from_ocr :: "string option \<Rightarrow> string list option" where
  "extract_pins_from_ocr recognized =
     (case recognized of
        None \<Rightarrow> None
      | Some txt \<Rightarrow> names_of_pairs (pairs_A txt @ pairs_B txt))"

section \<open>Plain text pattern strategy (\<^verbatim>\<open>extractors/text_extractor.py\<close>)\<close>

text \<open>
  \<^verbatim>\<open>s.splitlines()\<close>: a line ends at a line feed, a carriage return (with the line feed
  that follows it, if any), a vertical tab, a form feed, one of the separators 28 to 30 or
  the next-line character 133. \<open>acc\<close> is the current line, reversed.
\<close>

definition is_linebreak :: "char \<Rightarrow> bool" where
  "is_linebreak c = ((10 \<le> code c \<and> code c \<le> 13) \<or> (28 \<le> code c \<and> code c \<le> 30)
                     \<or> code c = 133)"

fun splitlines_from :: "string \<Rightarrow> string \<Rightarrow> string list" where
  "splitlines_from acc [] = (if acc = [] then [] else [rev acc])"
| "splitlines_from acc [c] = (if is_linebreak c then [rev acc] else [rev (c # acc)])"
| "splitlines_from acc (c # d # cs) =
     (if c = CHR 0x0D \<and> d = CHR 0x0A then rev acc # splitlines_from [] cs
      else if is_linebreak c then rev acc # splitlines_from [] (d # cs)
      else splitlines_from (c # acc) (d # cs))"

definition splitlines :: "string \<Rightarrow> string list" where
  "splitlines s = splitlines_from [] s"

text \<open>\<^verbatim>\<open>r"^\s*(\d{1,3})\s+([A-Za-z0-9_/.-]+)\s*$"\<close>\<close>

definition re_pin_line :: re where
  "re_pin_line =
     seqs [Bol, ws0, Grp (Rep [Digit] 1 (Some 3)), ws1, Grp (Rep token_set 1 None), ws0, Eol]"

text \<open>
  \<^verbatim>\<open>extract_pins_from_text\<close>, on the text recognized on the first five pages.
  \<^verbatim>\<open>results.sort(key=...)\<close> is a stable sort, as \<open>sort_key\<close> is.
\<close>

definition extract_pins_from_text :: "string option \<Rightarrow> string list option" where
  "extract_pins_from_text recognized =
     (case recognized of
        None \<Rightarrow> None
      | Some txt \<Rightarrow>
          (let results = List.map_filter
                 (\<lambda>line. case re_match re_pin_line line of
                            Some [pin, nm] \<Rightarrow> Some (int_of_digits pin, nm)
                          | _ \<Rightarrow> None)
                 (splitlines txt)
           in if results = [] then None else Some (map snd (sort_key fst results))))"

section \<open>Fallback orchestrator (\<^verbatim>\<open>parse.py\<close>, \<^verbatim>\<open>extract_pins_traditional\<close>)\<close>

text \<open>
  What the collaborators outside the program give for one document: the pages as
  \<^verbatim>\<open>pdfplumber\<close> reads them, the text recognized for the diagram strategy and the text
  recognized for the text strategy.
\<close>

record document =
  pdf_pages :: "page list option"
  diagram_text :: "string option"
  ocr_text :: "string option"

datatype strategy = TableStrategy | DiagramStrategy | TextStrategy

text \<open>
  Lines 68 and 82: \<^verbatim>\<open>[Pin(number=i, name=name) for i, name in enumerate(pins, 1)]\<close>.
\<close>

definition number_pins :: "string list \<Rightarrow> Pin list" where
  "number_pins names =
     map (\<lambda>(i, nm). \<lparr>number = Num (int i), name = nm, details = None\<rparr>) (enumerate 1 names)"

text \<open>\<^verbatim>\<open>result and result.get("pins")\<close> as a truth value.\<close>

definition has_pins :: "extraction option \<Rightarrow> bool" where
  "has_pins result = (case result of None \<Rightarrow> False | Some r \<Rightarrow> pins r \<noteq> [])"

text \<open>
  The orchestrator over three strategies. It returns its result together with the
  strategies it has called, in call order. \<^verbatim>\<open>if pins:\<close> holds for a list of names that
  is neither \<^verbatim>\<open>None\<close> nor empty.
\<close>

definition try_strategies ::
  "(document \<Rightarrow> extraction option) \<Rightarrow> (document \<Rightarrow> string list option)
   \<Rightarrow> (document \<Rightarrow> string list option) \<Rightarrow> document
   \<Rightarrow> extraction option \<times> strategy list" where
  "try_strategies from_tables from_ocr from_text doc =
     (let result = from_tables doc in
      if has_pins result then (result, [TableStrategy])
      else
        (case from_ocr doc of
           Some (n # ns) \<Rightarrow>
             (Some \<lparr>pins = number_pins (n # ns), metadata = None\<rparr>,
              [TableStrategy, DiagramStrategy])
         | _ \<Rightarrow>
             (case from_text doc of
                Some (n # ns) \<Rightarrow>
                  (Some \<lparr>pins = number_pins (n # ns), metadata = None\<rparr>,
                   [TableStrategy, DiagramStrategy, TextStrategy])
              | _ \<Rightarrow> (None, [TableStrategy, DiagramStrategy, TextStrategy]))))"

definition extract_pins_traditional ::
  "(string \<Rightarrow> Metadata) \<Rightarrow> document \<Rightarrow> extraction option \<times> strategy list" where
  "extract_pins_traditional scan_metadata =
     try_strategies (\<lambda>doc. extract_pins_from_tables scan_metadata (pdf_pages doc))
                    (\<lambda>doc. extract_pins_from_ocr (diagram_text doc))
                    (\<lambda>doc. extract_pins_from_text (ocr_text doc))"

section \<open>Language-model strategy (\<^verbatim>\<open>extractors/llm_extractor.py\<close>)\<close>

record page_data =
  pd_page_number :: nat
  pd_text :: string
  pd_char_count :: nat

text \<open>
  \<^verbatim>\<open>extract_text_from_pdf\<close> with the default page limit: the pages whose text is not
  blank, numbered from 1 by their position in the document.
\<close>

definition extract_text_from_pdf :: "page list option \<Rightarrow> page_data list" where
  "extract_text_from_pdf pdf =
     (case pdf of
        None \<Rightarrow> []
      | Some pages \<Rightarrow>
          List.map_filter
            (\<lambda>(page_num, pg).
               if truthy (page_text pg) \<and> strip (str (page_text pg)) \<noteq> []
               then Some \<lparr>pd_page_number = page_num, pd_text = str (page_text pg),
                          pd_char_count = length (str (page_text pg))\<rparr>
               else None)
            (enumerate 1 (take DEFAULT_MAX_PAGES pages)))"

text \<open>
  What a provider call and the validation of its answer give for one page: an error of
  the provider, an answer that fails validation, or a validated list of pins. A backend is
  a provider, a function of the page text and the page number, or the mock mode.
\<close>

datatype page_outcome = ProviderError | ValidationError | Validated "Pin list"

datatype backend = Provider "string \<Rightarrow> nat \<Rightarrow> page_outcome" | Mock

text \<open>
  \<^verbatim>\<open>process_page_with_llm\<close>: the dictionary \<^verbatim>\<open>{"pins": [...]}\<close> is represented by its list
  of pins. A provider gives \<^verbatim>\<open>pins_data if pins else None\<close>; the mock mode gives an empty
  list of pins for a page with one of the keywords and \<^verbatim>\<open>None\<close> otherwise.
\<close>

definition process_page_with_llm :: "backend \<Rightarrow> string \<Rightarrow> nat \<Rightarrow> Pin list option" where
  "process_page_with_llm b page_text_arg page_num =
     (case b of
        Provider f \<Rightarrow>
          (case f page_text_arg page_num of
             ProviderError \<Rightarrow> None
           | ValidationError \<Rightarrow> None
           | Validated ps \<Rightarrow> if ps \<noteq> [] then Some ps else None)
      | Mock \<Rightarrow>
          if list_ex (\<lambda>kw. contains kw (lower page_text_arg))
               [''pin'', ''terminal'', ''connection'', ''signal'', ''description'']
          then Some [] else None)"

record llm_extraction =
  success :: bool
  total_pages :: nat
  pages_with_pins :: nat
  llm_pins :: "Pin list"
  llm_results :: "Pin list list"

text \<open>
  \<^verbatim>\<open>extract_pins_with_llm\<close>. \<^verbatim>\<open>all_pins\<close> is created empty and returned under \<^verbatim>\<open>"pins"\<close>;
  the loop appends every page result that is not \<^verbatim>\<open>None\<close> to \<^verbatim>\<open>results\<close> (a dictionary
  with a key is true), and the line that would extend \<^verbatim>\<open>all_pins\<close> is a comment.
\<close>

definition extract_pins_with_llm :: "backend \<Rightarrow> page list option \<Rightarrow> llm_extraction option" where
  "extract_pins_with_llm b pdf =
     (let pages_data = extract_text_from_pdf pdf in
      if pages_data = [] then None
      else
        (let results = List.map_filter
               (\<lambda>pd. process_page_with_llm b (pd_text pd) (pd_page_number pd)) pages_data;
             all_pins = []
         in Some \<lparr>success = True, total_pages = length pages_data,
                  pages_with_pins = length results, llm_pins = all_pins,
                  llm_results = results\<rparr>))"

section \<open>Command line (\<^verbatim>\<open>parse.py\<close>, \<^verbatim>\<open>main\<close>)\<close>

datatype extraction_method = Traditional | Llm

datatype convert_format = Txt | Md

record args =
  arg_method :: extraction_method
  arg_convert :: "convert_format option"
  arg_json_only :: bool

datatype exception = UnboundLocalError string

text \<open>The dictionary \<^verbatim>\<open>result_data\<close> that \<^verbatim>\<open>main\<close> prints as JSON.\<close>

record result_data =
  out_pins :: "Pin list"
  out_count :: nat
  out_metadata :: "Metadata option"

text \<open>A run of \<^verbatim>\<open>main\<close> returns an exit code, with the JSON it printed if any, or raises.\<close>

datatype run = Exit nat "result_data option" | Raised exception

text \<open>
  Lines 247 to 344. \<open>pins_var\<close> is the local variable \<^verbatim>\<open>pins\<close> (\<open>None\<close> is Python's
  \<^verbatim>\<open>None\<close>); \<open>metadata_var\<close> is the local variable \<^verbatim>\<open>metadata\<close>, \<open>None\<close> while it has not
  been assigned. The variable is read at line 250 unless \<^verbatim>\<open>--json-only\<close> is given, and at
  line 331 in every case; reading it unassigned raises \<^verbatim>\<open>UnboundLocalError\<close>. Writing to
  the console is outside the model.
\<close>

definition output_results :: "bool \<Rightarrow> Pin list option \<Rightarrow> Metadata option option \<Rightarrow> run" where
  "output_results json_only pins_var metadata_var =
     (case pins_var of
        Some (p # ps) \<Rightarrow>
          (if \<not> json_only \<and> metadata_var = None then Raised (UnboundLocalError ''metadata'')
           else
             (case metadata_var of
                None \<Rightarrow> Raised (UnboundLocalError ''metadata'')
              | Some md \<Rightarrow>
                  Exit 0 (Some \<lparr>out_pins = p # ps, out_count = length (p # ps),
                                 out_metadata = md\<rparr>)))
      | _ \<Rightarrow> Exit 1 None)"

text \<open>
  \<^verbatim>\<open>main\<close> over its collaborators: \<open>download\<close> is the outcome of \<^verbatim>\<open>download_pdf\<close>
  (\<open>None\<close> when it raises), \<open>convert\<close> the outcome of the whole-document export,
  \<open>with_llm\<close> and \<open>traditional\<close> the two extraction modes. Saving the page text
  (\<^verbatim>\<open>--save-text\<close>) writes a file and changes no variable.
\<close>

definition main_with ::
  "(document \<Rightarrow> llm_extraction option) \<Rightarrow> (document \<Rightarrow> extraction option)
   \<Rightarrow> (document \<Rightarrow> bool) \<Rightarrow> args \<Rightarrow> document option \<Rightarrow> run" where
  "main_with with_llm traditional convert a download =
     (case download of
        None \<Rightarrow> Exit 1 None
      | Some doc \<Rightarrow>
          if arg_convert a \<noteq> None then (if convert doc then Exit 0 None else Exit 1 None)
          else if arg_method a = Llm
          then
            (case with_llm doc of
               None \<Rightarrow> Exit 1 None
             | Some result \<Rightarrow>
                 if success result
                 then (if llm_pins result = [] then Exit 1 None
                       else output_results (arg_json_only a) (Some (llm_pins result)) None)
                 else Exit 1 None)
          else
            (case traditional doc of
               None \<Rightarrow> output_results (arg_json_only a) None None
             | Some result \<Rightarrow>
                 output_results (arg_json_only a) (Some (pins result)) (Some (metadata result))))"

text \<open>\<^verbatim>\<open>main\<close> with the program's own extraction modes.\<close>

definition main ::
  "(string \<Rightarrow> Metadata) \<Rightarrow> backend \<Rightarrow> (document \<Rightarrow> bool) \<Rightarrow> args \<Rightarrow> document option \<Rightarrow> run" where
  "main scan_metadata b =
     main_with (\<lambda>doc. extract_pins_with_llm b (pdf_pages doc))
               (\<lambda>doc. fst (extract_pins_traditional scan_metadata doc))"

section \<open>Vocabulary of the properties and sample documents\<close>

text \<open>The conditions of the promotion rule, on the normalised rows 0 and 1 of a table.\<close>

definition row0_headers :: "table \<Rightarrow> string list" where
  "row0_headers tbl = map collapse_ws (map norm_cell (tbl ! 0))"

definition row1_headers :: "table \<Rightarrow> string list" where
  "row1_headers tbl = map norm_cell (tbl ! 1)"

definition first_row_insufficient :: "table \<Rightarrow> bool" where
  "first_row_insufficient tbl =
     (2 * count_list (row0_headers tbl) [] > length (row0_headers tbl)
      \<or> \<not> list_ex (contains ''name'') (row0_headers tbl))"

definition second_row_has_keyword :: "table \<Rightarrow> bool" where
  "second_row_has_keyword tbl =
     list_ex (\<lambda>keyword. contains keyword (join '' '' (row1_headers tbl)))
       [''name'', ''type'', ''description'']"

text \<open>
  What it is to read a table with a given header row: the column roles inferred from
  these headers (with the probe for a pin column among the data rows from
  \<open>data_start_idx\<close> on), and the candidates of the given data rows under these roles.
\<close>

definition resolved_roles :: "table \<Rightarrow> string list \<Rightarrow> nat \<Rightarrow> roles" where
  "resolved_roles tbl headers data_start_idx =
     probe_pin_column tbl headers data_start_idx (classify_headers headers)"

definition rows_read_with :: "roles \<Rightarrow> string list \<Rightarrow> row list \<Rightarrow> (int \<times> Pin) list" where
  "rows_read_with r headers rows =
     (case (pin_idx r, name_idx r) of
        (Some p, Some n) \<Rightarrow>
          if is_packaging_table headers then []
          else List.map_filter (row_candidate r p n) rows
      | _ \<Rightarrow> [])"

text \<open>
  A table of two rows whose row 1 is a pin named \<^verbatim>\<open>TYPE_SEL\<close>, and a table of three rows
  whose row 0 is an empty merged header.
\<close>

definition two_row_table :: table where
  "two_row_table = [[Some ''PIN'', Some ''SIGNAL''], [Some ''1'', Some ''TYPE_SEL'']]"

definition merged_header_table :: table where
  "merged_header_table =
     [[Some [], None, Some []],
      [Some ''Pin'', Some ''Name'', Some ''Type''],
      [Some ''1'', Some ''VDD'', Some ''Power'']]"

text \<open>A candidate whose key is its pin's own number, and not 0.\<close>

definition well_numbered :: "int \<times> Pin \<Rightarrow> bool" where
  "well_numbered c = (fst c \<noteq> 0 \<and> number (snd c) = Num (fst c))"

text \<open>
  A stand-in for the metadata scan in the sample documents: it reports the first word of
  the page as the part number.
\<close>

definition sample_scan :: "string \<Rightarrow> Metadata" where
  "sample_scan s =
     \<lparr>md_part_number = Some (takeWhile (\<lambda>c. \<not> is_space c) s), md_title = None,
      md_description = None, md_features = [], md_applications = []\<rparr>"

definition merge_text :: string where
  "merge_text = ''3 SDX from text'' @ [CHR 0x0A] @ ''4 VSS Ground connection''"

text \<open>Sample documents.\<close>

definition merge_pages :: "page list" where
  "merge_pages =
     [\<lparr>page_text = Some merge_text,
       page_tables = [[[Some ''PIN'', Some ''NAME'', Some ''TYPE''],
                       [Some ''3'', Some ''SDA'', Some ''Digital''],
                       [Some ''1'', Some ''VDD'', Some ''Power''],
                       [Some ''3'', Some ''SCL'', Some ''Digital'']]]\<rparr>]"

definition merge_result :: extraction where
  "merge_result =
     \<lparr>pins = [\<lparr>number = Num 1, name = ''VDD'', details = Some [(''type'', Text ''Power'')]\<rparr>,
              \<lparr>number = Num 3, name = ''SDA'', details = Some [(''type'', Text ''Digital'')]\<rparr>,
              \<lparr>number = Num 4, name = ''VSS'',
               details = Some [(''description'', Text ''Ground connection'')]\<rparr>],
      metadata = Some (sample_scan merge_text)\<rparr>"

definition shared_name_pages :: "page list" where
  "shared_name_pages =
     [\<lparr>page_text = None,
       page_tables = [[[Some ''PIN'', Some ''NAME''],
                       [Some ''1'', Some ''NC''],
                       [Some ''0'', Some ''EP''],
                       [Some ''2'', Some ''NC'']]]\<rparr>]"

definition shared_name_result :: extraction where
  "shared_name_result =
     \<lparr>pins = [\<lparr>number = Num 1, name = ''NC'', details = None\<rparr>,
              \<lparr>number = Num 2, name = ''NC'', details = None\<rparr>],
      metadata = None\<rparr>"

text \<open>Truth value of an optional list of names.\<close>

definition yields_names :: "string list option \<Rightarrow> bool" where
  "yields_names names = (case names of None \<Rightarrow> False | Some ns \<Rightarrow> ns \<noteq> [])"

definition diagram_sample :: string where
  "diagram_sample = ''VDD 1, 2 SDA, GND 2''"

text \<open>Further sample documents, tables and collaborators.\<close>

definition doc_with_table :: document where
  "doc_with_table =
     \<lparr>pdf_pages = Some merge_pages, diagram_text = Some ''VDD 1'', ocr_text = Some ''1 VDD''\<rparr>"

definition doc_with_diagram :: document where
  "doc_with_diagram =
     \<lparr>pdf_pages = None, diagram_text = Some ''VDD 1, 2 SDA'', ocr_text = Some ''1 VDD''\<rparr>"

definition doc_empty :: document where
  "doc_empty = \<lparr>pdf_pages = Some [], diagram_text = Some [], ocr_text = Some []\<rparr>"



definition io_type_table :: table where
  "io_type_table =
     [[Some ''PIN#'', Some ''NAME'', Some ''I/O TYPE''],
      [Some ''3'', Some ''SDA'', Some ''Digital I/O'']]"

definition io_type_text :: string where
  "io_type_text = ''PIN# NAME I/O TYPE'' @ [CHR 0x0A] @ ''3 SDA Digital I/O''"

definition sda_pin :: Pin where
  "sda_pin = \<lparr>number = Num 3, name = ''SDA'',
              details = Some [(''type'', Text ''Digital''), (''direction'', Text ''I/O'')]\<rparr>"

definition vdd_pin :: Pin where
  "vdd_pin = \<lparr>number = Num 1, name = ''VDD'', details = None\<rparr>"

definition one_pin_result :: llm_extraction where
  "one_pin_result =
     \<lparr>success = True, total_pages = 1, pages_with_pins = 1, llm_pins = [vdd_pin],
      llm_results = [[vdd_pin]]\<rparr>"

definition llm_args :: args where
  "llm_args = \<lparr>arg_method = Llm, arg_convert = None, arg_json_only = False\<rparr>"

definition llm_json_args :: args where
  "llm_json_args = \<lparr>arg_method = Llm, arg_convert = None, arg_json_only = True\<rparr>"

definition io_type_pages :: "page list" where
  "io_type_pages = [\<lparr>page_text = Some io_type_text, page_tables = [io_type_table]\<rparr>]"

definition diagram_lines :: string where
  "diagram_lines = ''VDD 1'' @ [CHR 0x0A] @ ''2 SDA''"

definition diagram_lines_swapped :: string where
  "diagram_lines_swapped = ''2 SDA'' @ [CHR 0x0A] @ ''VDD 1''"

definition doc_diagram_lines :: document where
  "doc_diagram_lines = \<lparr>pdf_pages = None, diagram_text = Some diagram_lines, ocr_text = None\<rparr>"

text \<open>
  A provider that fails on page 1, gives an invalid answer on page 2 and one valid pin
  on every other page.
\<close>

definition flaky_provider :: "string \<Rightarrow> nat \<Rightarrow> page_outcome" where
  "flaky_provider page_text_arg page_num =
     (if page_num = 1 then ProviderError
      else if page_num = 2 then ValidationError
      else Validated [vdd_pin])"

definition three_text_pages :: "page list" where
  "three_text_pages =
     [\<lparr>page_text = Some ''ADS1115'', page_tables = []\<rparr>,
      \<lparr>page_text = Some ''Features'', page_tables = []\<rparr>,
      \<lparr>page_text = Some ''Pin 1 VDD'', page_tables = []\<rparr>]"

section \<open>Properties\<close>

subsection \<open>Header promotion\<close>

lemma promoted_select:
  assumes "length tbl > 2"
    and "first_row_insufficient tbl"
    and "second_row_has_keyword tbl"
  shows "select_headers tbl = (row1_headers tbl, 2)"
  using assms
  unfolding select_headers_def first_row_insufficient_def second_row_has_keyword_def
    row0_headers_def row1_headers_def
  by (simp add: Let_def)

lemma short_table_select:
  assumes "length tbl \<le> 2"
  shows "select_headers tbl = (row0_headers tbl, 1)"
  using assms unfolding select_headers_def row0_headers_def
  by (simp add: Let_def)

lemma table_candidates_read:
  assumes "length tbl \<ge> 2"
    and "select_headers tbl = (headers, data_start_idx)"
  shows "table_candidates tbl
         = rows_read_with (resolved_roles tbl headers data_start_idx) headers
             (drop data_start_idx tbl)"
  using assms unfolding table_candidates_def rows_read_with_def resolved_roles_def
  by (simp add: Let_def)

text \<open>
  C8, as the program has it. In a table of at least three rows whose row 0 has more than
  half of its header cells empty or no header cell containing "name", and whose row 1,
  joined, contains "name", "type" or "description", row 1 becomes the header row: the
  column roles are those inferred from row 1 and the candidates are those of the rows
  from index 2 on. A table of at most two rows is never promoted: row 0 stays the header
  row, and in a table of two rows the roles are those of row 0 and the candidates those of
  row 1.
\<close>

theorem header_promotion:
  "(length tbl > 2 \<and> first_row_insufficient tbl \<and> second_row_has_keyword tbl
      \<longrightarrow> select_headers tbl = (row1_headers tbl, 2)
          \<and> table_candidates tbl
              = rows_read_with (resolved_roles tbl (row1_headers tbl) 2) (row1_headers tbl)
                  (drop 2 tbl))
   \<and> (length tbl \<le> 2 \<longrightarrow> select_headers tbl = (row0_headers tbl, 1))
   \<and> (length tbl = 2
      \<longrightarrow> table_candidates tbl
            = rows_read_with (resolved_roles tbl (row0_headers tbl) 1) (row0_headers tbl)
                (drop 1 tbl))"
proof (intro conjI impI)
  assume a: "length tbl > 2 \<and> first_row_insufficient tbl \<and> second_row_has_keyword tbl"
  then show s: "select_headers tbl = (row1_headers tbl, 2)"
    by (simp add: promoted_select)
  from a have "length tbl \<ge> 2" by simp
  from table_candidates_read [OF this s]
  show "table_candidates tbl
        = rows_read_with (resolved_roles tbl (row1_headers tbl) 2) (row1_headers tbl)
            (drop 2 tbl)" .
next
  assume "length tbl \<le> 2"
  then show "select_headers tbl = (row0_headers tbl, 1)" by (rule short_table_select)
next
  assume b: "length tbl = 2"
  then have s: "select_headers tbl = (row0_headers tbl, 1)" by (simp add: short_table_select)
  from b have "length tbl \<ge> 2" by simp
  from table_candidates_read [OF this s]
  show "table_candidates tbl
        = rows_read_with (resolved_roles tbl (row0_headers tbl) 1) (row0_headers tbl)
            (drop 1 tbl)" .
qed

theorem header_promotion_witness:
  "length merged_header_table > 2 \<and> first_row_insufficient merged_header_table
   \<and> second_row_has_keyword merged_header_table
   \<and> select_headers merged_header_table = ([''pin'', ''name'', ''type''], 2)
   \<and> resolved_roles merged_header_table (row1_headers merged_header_table) 2
       = \<lparr>pin_idx = Some 0, name_idx = Some 1, type_idx = Some 2, direction_idx = None,
          description_idx = None\<rparr>
   \<and> drop 2 merged_header_table = [[Some ''1'', Some ''VDD'', Some ''Power'']]
   \<and> table_candidates merged_header_table
       = rows_read_with (resolved_roles merged_header_table (row1_headers merged_header_table) 2)
           (row1_headers merged_header_table) (drop 2 merged_header_table)
   \<and> table_candidates merged_header_table
       = [(1, \<lparr>number = Num 1, name = ''VDD'', details = Some [(''type'', Text ''Power'')]\<rparr>)]
   \<and> length two_row_table = 2
   \<and> select_headers two_row_table = (row0_headers two_row_table, 1)
   \<and> table_candidates two_row_table
       = rows_read_with (resolved_roles two_row_table (row0_headers two_row_table) 1)
           (row0_headers two_row_table) (drop 1 two_row_table)"
proof -
  have l: "length merged_header_table > 2" by (simp add: merged_header_table_def)
  have f: "first_row_insufficient merged_header_table" by code_simp
  have k: "second_row_has_keyword merged_header_table" by code_simp
  have r: "row1_headers merged_header_table = [''pin'', ''name'', ''type'']" by code_simp
  have o: "resolved_roles merged_header_table (row1_headers merged_header_table) 2
           = \<lparr>pin_idx = Some 0, name_idx = Some 1, type_idx = Some 2, direction_idx = None,
              description_idx = None\<rparr>" by code_simp
  have d: "drop 2 merged_header_table = [[Some ''1'', Some ''VDD'', Some ''Power'']]"
    by (simp add: merged_header_table_def)
  have c: "table_candidates merged_header_table
           = [(1, \<lparr>number = Num 1, name = ''VDD'',
                   details = Some [(''type'', Text ''Power'')]\<rparr>)]" by code_simp
  have l2: "length two_row_table = 2" by (simp add: two_row_table_def)
  have p: "select_headers merged_header_table = (row1_headers merged_header_table, 2)
           \<and> table_candidates merged_header_table
               = rows_read_with
                   (resolved_roles merged_header_table (row1_headers merged_header_table) 2)
                   (row1_headers merged_header_table) (drop 2 merged_header_table)"
    using header_promotion [of merged_header_table] l f k by blast
  have q: "select_headers two_row_table = (row0_headers two_row_table, 1)
           \<and> table_candidates two_row_table
               = rows_read_with (resolved_roles two_row_table (row0_headers two_row_table) 1)
                   (row0_headers two_row_table) (drop 1 two_row_table)"
    using header_promotion [of two_row_table] l2 by simp
  have s: "select_headers merged_header_table = ([''pin'', ''name'', ''type''], 2)"
    using p r by simp
  from l f k s o d p c l2 q show ?thesis by blast
qed

text \<open>
  The rule as C8 states it asks only for a second row. The two-row table meets both
  conditions of the rule, yet the program keeps row 0 as its header row, because it tries
  row 1 only under \<^verbatim>\<open>len(table) > 2\<close>: it reads row 1 as data and returns pin 1 named
  \<^verbatim>\<open>TYPE_SEL\<close>, where reading the table with row 1 as header row and the data from index 2
  on gives no pin.
\<close>

theorem header_promotion_counterexample:
  "length two_row_table = 2 \<and> first_row_insufficient two_row_table
   \<and> second_row_has_keyword two_row_table
   \<and> select_headers two_row_table = ([''pin'', ''signal''], 1)
   \<and> select_headers two_row_table \<noteq> (row1_headers two_row_table, 2)
   \<and> table_candidates two_row_table
       = [(1, \<lparr>number = Num 1, name = ''TYPE_SEL'', details = None\<rparr>)]
   \<and> rows_read_with (resolved_roles two_row_table (row1_headers two_row_table) 2)
        (row1_headers two_row_table) (drop 2 two_row_table) = []
   \<and> table_candidates two_row_table
       \<noteq> rows_read_with (resolved_roles two_row_table (row1_headers two_row_table) 2)
            (row1_headers two_row_table) (drop 2 two_row_table)"
proof -
  have l: "length two_row_table = 2" by (simp add: two_row_table_def)
  have f: "first_row_insufficient two_row_table" by code_simp
  have k: "second_row_has_keyword two_row_table" by code_simp
  have s: "select_headers two_row_table = ([''pin'', ''signal''], 1)" by code_simp
  have c: "table_candidates two_row_table
           = [(1, \<lparr>number = Num 1, name = ''TYPE_SEL'', details = None\<rparr>)]" by code_simp
  have e: "rows_read_with (resolved_roles two_row_table (row1_headers two_row_table) 2)
             (row1_headers two_row_table) (drop 2 two_row_table) = []" by code_simp
  from l f k s c e show ?thesis by simp
qed

subsection \<open>Merge of the structural-table strategy\<close>

lemma map_of_first_index:
  "map_of xs k = Some v \<Longrightarrow> \<exists>j<length xs. xs ! j = (k, v) \<and> (\<forall>j'<j. fst (xs ! j') \<noteq> k)"
proof (induction xs)
  case Nil
  then show ?case by simp
next
  case (Cons x xs)
  show ?case
  proof (cases "fst x = k")
    case True
    with Cons.prems have "x = (k, v)" by (cases x) simp
    then have "(x # xs) ! 0 = (k, v) \<and> (\<forall>j'<0. fst ((x # xs) ! j') \<noteq> k)" by simp
    then show ?thesis by blast
  next
    case False
    with Cons.prems have "map_of xs k = Some v" by (cases x) (simp split: if_splits)
    from Cons.IH [OF this] obtain j where j: "j < length xs" "xs ! j = (k, v)"
      "\<forall>j'<j. fst (xs ! j') \<noteq> k" by blast
    have "\<forall>j'<Suc j. fst ((x # xs) ! j') \<noteq> k"
    proof (intro allI impI)
      fix j' assume "j' < Suc j"
      then show "fst ((x # xs) ! j') \<noteq> k" using False j(3) by (cases j') auto
    qed
    with j(1,2) have "Suc j < length (x # xs) \<and> (x # xs) ! Suc j = (k, v)
        \<and> (\<forall>j'<Suc j. fst ((x # xs) ! j') \<noteq> k)" by simp
    then show ?thesis by blast
  qed
qed

lemma keep_first_step:
  "map_of (keep_first seen c) k =
     (case map_of seen k of Some v \<Rightarrow> Some v
      | None \<Rightarrow> if fst c = k then Some (snd c) else None)"
proof (cases "fst c \<in> set (map fst seen)")
  case True
  then have "map_of seen (fst c) \<noteq> None" by (simp add: map_of_eq_None_iff)
  with True show ?thesis by (auto simp: keep_first_def split: option.splits)
next
  case False
  then have "map_of seen (fst c) = None" by (simp add: map_of_eq_None_iff)
  with False show ?thesis by (auto simp: keep_first_def update_conv' split: option.splits)
qed

lemma keep_first_map_of:
  "map_of (foldl keep_first seen cs) k =
     (case map_of seen k of Some v \<Rightarrow> Some v | None \<Rightarrow> map_of cs k)"
proof (induction cs arbitrary: seen)
  case Nil
  then show ?case by (simp split: option.splits)
next
  case (Cons c cs)
  obtain a b where c: "c = (a, b)" by (cases c)
  show ?case
    by (simp add: Cons.IH keep_first_step c split: option.splits)
qed

lemma keep_first_step_distinct:
  "distinct (map fst seen) \<Longrightarrow> distinct (map fst (keep_first seen c))"
  by (simp add: keep_first_def distinct_update)

lemma keep_first_distinct:
  "distinct (map fst seen) \<Longrightarrow> distinct (map fst (foldl keep_first seen cs))"
  by (induction cs arbitrary: seen) (simp_all add: keep_first_step_distinct)

lemma keep_first_step_keys:
  "fst ` set (keep_first seen c) = fst ` set seen \<union> {fst c}"
  by (auto simp: keep_first_def dom_update)

lemma keep_first_keys:
  "fst ` set (foldl keep_first seen cs) = fst ` set seen \<union> fst ` set cs"
  by (induction cs arbitrary: seen) (auto simp: keep_first_step_keys)

lemma merge_candidates_eq:
  "merge_candidates cs =
     map (\<lambda>k. the (map_of cs k)) (sort (map fst (foldl keep_first [] cs)))"
  by (simp add: merge_candidates_def Let_def dict_get_def keep_first_map_of)

lemma merge_keys_sorted:
  "sorted_wrt (<) (sort (map fst (foldl keep_first [] cs)))"
  using keep_first_distinct [of "[]" cs] by (simp add: strict_sorted_iff)

lemma merge_keys_set:
  "set (sort (map fst (foldl keep_first [] cs))) = fst ` set cs"
  using keep_first_keys [of "[]" cs] by simp

lemma row_candidate_well_numbered:
  "row_candidate r p n row = Some c \<Longrightarrow> well_numbered c"
  unfolding row_candidate_def well_numbered_def Let_def
  by (auto split: if_splits)

lemma map_filter_member:
  "y \<in> set (List.map_filter f xs) \<Longrightarrow> \<exists>x\<in>set xs. f x = Some y"
  by (induction xs) (auto split: option.splits)

lemma table_candidates_well_numbered:
  "c \<in> set (table_candidates tbl) \<Longrightarrow> well_numbered c"
  unfolding table_candidates_def Let_def
  by (auto dest!: map_filter_member dest: row_candidate_well_numbered
      split: if_splits option.splits)

lemma candidates_from_tables_well_numbered:
  "c \<in> set (candidates_from_tables pages) \<Longrightarrow> well_numbered c"
  unfolding candidates_from_tables_def
  by (auto dest: table_candidates_well_numbered)

lemma text_line_step_appends:
  "\<exists>extra. text_line_step cs line = cs @ extra \<and> list_all well_numbered extra"
  unfolding text_line_step_def Let_def well_numbered_def
  by (auto split: option.splits list.splits)

lemma text_lines_append:
  "\<exists>extra. foldl text_line_step cs lines = cs @ extra \<and> list_all well_numbered extra"
proof (induction lines arbitrary: cs)
  case Nil
  then show ?case by simp
next
  case (Cons l ls)
  obtain e1 where e1: "text_line_step cs l = cs @ e1" "list_all well_numbered e1"
    using text_line_step_appends by blast
  obtain e2 where e2: "foldl text_line_step (cs @ e1) ls = (cs @ e1) @ e2"
    "list_all well_numbered e2"
    using Cons.IH by blast
  have "foldl text_line_step cs (l # ls) = cs @ (e1 @ e2) \<and> list_all well_numbered (e1 @ e2)"
    using e1 e2 by simp
  then show ?case by blast
qed

lemma text_page_step_appends:
  "\<exists>extra. text_page_step cs pg = cs @ extra \<and> list_all well_numbered extra"
  unfolding text_page_step_def using text_lines_append by auto

lemma text_pages_append:
  "\<exists>extra. foldl text_page_step cs pgs = cs @ extra \<and> list_all well_numbered extra"
proof (induction pgs arbitrary: cs)
  case Nil
  then show ?case by simp
next
  case (Cons g gs)
  obtain e1 where e1: "text_page_step cs g = cs @ e1" "list_all well_numbered e1"
    using text_page_step_appends by blast
  obtain e2 where e2: "foldl text_page_step (cs @ e1) gs = (cs @ e1) @ e2"
    "list_all well_numbered e2"
    using Cons.IH by blast
  have "foldl text_page_step cs (g # gs) = cs @ (e1 @ e2) \<and> list_all well_numbered (e1 @ e2)"
    using e1 e2 by simp
  then show ?case by blast
qed

lemma all_candidates_split:
  "\<exists>txt. all_candidates pages = candidates_from_tables pages @ txt
         \<and> list_all well_numbered txt"
  unfolding all_candidates_def text_fallback_def using text_pages_append by blast

lemma all_candidates_well_numbered:
  "c \<in> set (all_candidates pages) \<Longrightarrow> well_numbered c"
  using all_candidates_split [of pages] candidates_from_tables_well_numbered [of c pages]
  by (auto simp: list_all_iff)

lemma strategy_pins:
  "extract_pins_from_tables scan_metadata (Some pages) = Some r
   \<Longrightarrow> pins r = merge_candidates (all_candidates pages)"
  unfolding extract_pins_from_tables_def Let_def
  by (auto simp: merge_candidates_def split: if_splits option.splits)

text \<open>
  C1. Whenever the structural-table strategy returns a result, its pins are the merge of
  its candidate list, the candidate list is the table candidates followed by the
  text-fallback candidates, and there is a strictly
  ascending list \<open>ks\<close> of exactly the pin numbers of the candidates such that the pins
  returned carry these numbers in this order, the pin at position \<open>i\<close> is the entry of
  the first candidate with number \<open>ks ! i\<close>, and it is a table candidate whenever a
  table candidate has that number. The pins are a function of the candidate list alone,
  so merging the same list in the same order again gives the same pins.
\<close>

theorem merge_first_seen_sorted:
  assumes "extract_pins_from_tables scan_metadata (Some pages) = Some r"
  shows "pins r = merge_candidates (all_candidates pages)
         \<and> (\<exists>fallback ks.
           all_candidates pages = candidates_from_tables pages @ fallback
           \<and> sorted_wrt (<) ks
           \<and> set ks = fst ` set (all_candidates pages)
           \<and> map number (pins r) = map Num ks
           \<and> (\<forall>i<length ks. \<exists>j<length (all_candidates pages).
                  all_candidates pages ! j = (ks ! i, pins r ! i)
                  \<and> (\<forall>j'<j. fst (all_candidates pages ! j') \<noteq> ks ! i))
           \<and> (\<forall>i<length ks. ks ! i \<in> fst ` set (candidates_from_tables pages)
                  \<longrightarrow> (ks ! i, pins r ! i) \<in> set (candidates_from_tables pages)))"
proof -
  define cs where "cs = all_candidates pages"
  define tb where "tb = candidates_from_tables pages"
  define ks where "ks = sort (map fst (foldl keep_first [] cs))"
  obtain fb where fb: "cs = tb @ fb"
    using all_candidates_split [of pages] by (auto simp: cs_def tb_def)
  have p: "pins r = map (\<lambda>k. the (map_of cs k)) ks"
    using strategy_pins [OF assms] by (simp add: merge_candidates_eq cs_def ks_def)
  have s: "sorted_wrt (<) ks" unfolding ks_def by (rule merge_keys_sorted)
  have k: "set ks = fst ` set cs" unfolding ks_def by (rule merge_keys_set)
  have first_at: "\<exists>j<length cs. cs ! j = (ks ! i, pins r ! i)
               \<and> (\<forall>j'<j. fst (cs ! j') \<noteq> ks ! i)" if i: "i < length ks" for i
  proof -
    from i k have "ks ! i \<in> fst ` set cs" using nth_mem by blast
    then obtain v where v: "map_of cs (ks ! i) = Some v"
      by (metis domD dom_map_of_conv_image_fst)
    with i p have "pins r ! i = v" by simp
    with map_of_first_index [OF v] show ?thesis by simp
  qed
  have n: "map number (pins r) = map Num ks"
  proof (rule nth_equalityI)
    show "length (map number (pins r)) = length (map Num ks)" using p by simp
  next
    fix i assume "i < length (map number (pins r))"
    then have i: "i < length ks" using p by simp
    from first_at [OF i] obtain j where j: "j < length cs" "cs ! j = (ks ! i, pins r ! i)" by blast
    then have "(ks ! i, pins r ! i) \<in> set cs" by (metis nth_mem)
    then have "well_numbered (ks ! i, pins r ! i)"
      using all_candidates_well_numbered by (simp add: cs_def)
    then have "number (pins r ! i) = Num (ks ! i)" by (simp add: well_numbered_def)
    with i p show "map number (pins r) ! i = map Num ks ! i" by simp
  qed
  have t: "(ks ! i, pins r ! i) \<in> set tb"
    if i: "i < length ks" and m: "ks ! i \<in> fst ` set tb" for i
  proof -
    from first_at [OF i] obtain j where j: "j < length cs" "cs ! j = (ks ! i, pins r ! i)"
      "\<forall>j'<j. fst (cs ! j') \<noteq> ks ! i" by blast
    from m obtain j0 where j0: "j0 < length tb" "fst (tb ! j0) = ks ! i"
      by (metis fst_conv image_iff in_set_conv_nth)
    then have "fst (cs ! j0) = ks ! i" by (simp add: fb nth_append)
    with j(3) have "\<not> j0 < j" by blast
    with j0(1) have "j < length tb" by simp
    with j(2) have "tb ! j = (ks ! i, pins r ! i)" by (simp add: fb nth_append)
    with \<open>j < length tb\<close> show ?thesis by (metis nth_mem)
  qed
  from fb s k n first_at t have "\<exists>fallback ks.
           all_candidates pages = candidates_from_tables pages @ fallback
           \<and> sorted_wrt (<) ks
           \<and> set ks = fst ` set (all_candidates pages)
           \<and> map number (pins r) = map Num ks
           \<and> (\<forall>i<length ks. \<exists>j<length (all_candidates pages).
                  all_candidates pages ! j = (ks ! i, pins r ! i)
                  \<and> (\<forall>j'<j. fst (all_candidates pages ! j') \<noteq> ks ! i))
           \<and> (\<forall>i<length ks. ks ! i \<in> fst ` set (candidates_from_tables pages)
                  \<longrightarrow> (ks ! i, pins r ! i) \<in> set (candidates_from_tables pages))"
    unfolding cs_def tb_def by blast
  with strategy_pins [OF assms] show ?thesis by simp
qed

theorem merge_first_seen_sorted_witness:
  "extract_pins_from_tables sample_scan (Some merge_pages) = Some merge_result
   \<and> map name (pins merge_result) = [''VDD'', ''SDA'', ''VSS'']
   \<and> pins merge_result = merge_candidates (all_candidates merge_pages)
   \<and> (\<exists>fallback ks.
           all_candidates merge_pages = candidates_from_tables merge_pages @ fallback
           \<and> sorted_wrt (<) ks
           \<and> set ks = fst ` set (all_candidates merge_pages)
           \<and> map number (pins merge_result) = map Num ks
           \<and> (\<forall>i<length ks. \<exists>j<length (all_candidates merge_pages).
                  all_candidates merge_pages ! j = (ks ! i, pins merge_result ! i)
                  \<and> (\<forall>j'<j. fst (all_candidates merge_pages ! j') \<noteq> ks ! i))
           \<and> (\<forall>i<length ks. ks ! i \<in> fst ` set (candidates_from_tables merge_pages)
                  \<longrightarrow> (ks ! i, pins merge_result ! i) \<in> set (candidates_from_tables merge_pages)))"
proof -
  have e: "extract_pins_from_tables sample_scan (Some merge_pages) = Some merge_result"
    by code_simp
  have m: "map name (pins merge_result) = [''VDD'', ''SDA'', ''VSS'']"
    by (simp add: merge_result_def)
  from merge_first_seen_sorted [OF e] e m show ?thesis by blast
qed

text \<open>
  C3. In every result of the structural-table strategy the pin numbers are integers,
  pairwise distinct and never 0. Names may repeat, as in the sample document of the
  witness.
\<close>

theorem unique_nonzero_numbers:
  assumes "extract_pins_from_tables scan_metadata pdf = Some r"
  shows "distinct (map number (pins r))
         \<and> (\<forall>p\<in>set (pins r). \<exists>n. number p = Num n \<and> n \<noteq> 0)"
proof -
  from assms obtain pages where pdf: "pdf = Some pages"
    by (cases pdf) (simp_all add: extract_pins_from_tables_def)
  define cs where "cs = all_candidates pages"
  define ks where "ks = sort (map fst (foldl keep_first [] cs))"
  have p: "pins r = map (\<lambda>k. the (map_of cs k)) ks"
    using strategy_pins [OF assms [unfolded pdf]]
    by (simp add: merge_candidates_eq cs_def ks_def)
  have "sorted_wrt (<) ks" unfolding ks_def by (rule merge_keys_sorted)
  then have d: "distinct ks" by (simp add: strict_sorted_iff)
  have w: "number (the (map_of cs k)) = Num k \<and> k \<noteq> 0" if "k \<in> set ks" for k
  proof -
    have "set ks = fst ` set cs" unfolding ks_def by (rule merge_keys_set)
    with that have "k \<in> fst ` set cs" by simp
    then obtain v where v: "map_of cs k = Some v"
      by (metis domD dom_map_of_conv_image_fst)
    then have "(k, v) \<in> set cs" by (rule map_of_SomeD)
    then have "well_numbered (k, v)"
      using all_candidates_well_numbered by (simp add: cs_def)
    with v show ?thesis by (simp add: well_numbered_def)
  qed
  have n: "map number (pins r) = map Num ks" using p w by simp
  have "distinct (map number (pins r))" using d by (simp add: n distinct_map inj_on_def)
  moreover have "\<forall>q\<in>set (pins r). \<exists>n. number q = Num n \<and> n \<noteq> 0" using p w by auto
  ultimately show ?thesis by simp
qed

theorem unique_nonzero_numbers_witness:
  "extract_pins_from_tables sample_scan (Some shared_name_pages) = Some shared_name_result
   \<and> distinct (map number (pins shared_name_result))
   \<and> map number (pins shared_name_result) = [Num 1, Num 2]
   \<and> map name (pins shared_name_result) = [''NC'', ''NC'']"
proof -
  have e: "extract_pins_from_tables sample_scan (Some shared_name_pages)
           = Some shared_name_result"
    by code_simp
  have m: "map number (pins shared_name_result) = [Num 1, Num 2]"
    "map name (pins shared_name_result) = [''NC'', ''NC'']"
    by (simp_all add: shared_name_result_def)
  from unique_nonzero_numbers [OF e] e m show ?thesis by simp
qed

subsection \<open>Diagram recognition\<close>

lemma cleaned_of_snoc:
  "cleaned_of (ps @ [p]) = AList.update (fst p) (snd p) (cleaned_of ps)"
  by (simp add: cleaned_of_def)

lemma cleaned_of_keys: "fst ` set (cleaned_of ps) = fst ` set ps"
  by (induction ps rule: rev_induct) (auto simp: cleaned_of_snoc dom_update cleaned_of_def)

lemma cleaned_of_distinct: "distinct (map fst (cleaned_of ps))"
  by (induction ps rule: rev_induct) (simp_all add: cleaned_of_snoc distinct_update cleaned_of_def)

lemma cleaned_of_last_index:
  "map_of (cleaned_of ps) k = Some v
   \<Longrightarrow> \<exists>j<length ps. ps ! j = (k, v) \<and> (\<forall>j'<length ps. j < j' \<longrightarrow> fst (ps ! j') \<noteq> k)"
proof (induction ps arbitrary: v rule: rev_induct)
  case Nil
  then show ?case by (simp add: cleaned_of_def)
next
  case (snoc p ps)
  show ?case
  proof (cases "fst p = k")
    case True
    with snoc.prems have "snd p = v" by (simp add: cleaned_of_snoc update_conv')
    with True have "(ps @ [p]) ! length ps = (k, v)" by (cases p) simp
    then have "length ps < length (ps @ [p]) \<and> (ps @ [p]) ! length ps = (k, v)
        \<and> (\<forall>j'<length (ps @ [p]). length ps < j' \<longrightarrow> fst ((ps @ [p]) ! j') \<noteq> k)"
      by simp
    then show ?thesis by blast
  next
    case False
    with snoc.prems have "map_of (cleaned_of ps) k = Some v"
      by (simp add: cleaned_of_snoc update_conv')
    from snoc.IH [OF this] obtain j where j: "j < length ps" "ps ! j = (k, v)"
      "\<forall>j'<length ps. j < j' \<longrightarrow> fst (ps ! j') \<noteq> k" by blast
    have "\<forall>j'<length (ps @ [p]). j < j' \<longrightarrow> fst ((ps @ [p]) ! j') \<noteq> k"
    proof (intro allI impI)
      fix j' assume a: "j' < length (ps @ [p])" "j < j'"
      show "fst ((ps @ [p]) ! j') \<noteq> k"
      proof (cases "j' < length ps")
        case True
        with a j(3) show ?thesis by (simp add: nth_append)
      next
        case False
        with a have "j' = length ps" by simp
        with \<open>fst p \<noteq> k\<close> show ?thesis by simp
      qed
    qed
    with j(1,2) have "j < length (ps @ [p]) \<and> (ps @ [p]) ! j = (k, v)
        \<and> (\<forall>j'<length (ps @ [p]). j < j' \<longrightarrow> fst ((ps @ [p]) ! j') \<noteq> k)"
      by (simp add: nth_append)
    then show ?thesis by blast
  qed
qed

text \<open>
  C4. The diagram strategy pools the pairs of the name-then-number shape and of the
  number-then-name shape, in this order. Without a pair it returns no result. Otherwise
  there is a strictly ascending list \<open>ks\<close> of exactly the pin numbers of the pairs such
  that the name at position \<open>i\<close> is the name of the last pair with number \<open>ks ! i\<close>.
\<close>

theorem diagram_last_write_sorted:
  assumes "pairs = pairs_A recognized @ pairs_B recognized"
  shows "(pairs = [] \<longrightarrow> extract_pins_from_ocr (Some recognized) = None)
         \<and> (pairs \<noteq> [] \<longrightarrow>
              (\<exists>names ks.
                 extract_pins_from_ocr (Some recognized) = Some names
                 \<and> sorted_wrt (<) ks
                 \<and> set ks = fst ` set pairs
                 \<and> length names = length ks
                 \<and> (\<forall>i<length ks. \<exists>j<length pairs.
                        pairs ! j = (ks ! i, names ! i)
                        \<and> (\<forall>j'<length pairs. j < j' \<longrightarrow> fst (pairs ! j') \<noteq> ks ! i))))"
proof (intro conjI impI)
  assume "pairs = []"
  then show "extract_pins_from_ocr (Some recognized) = None"
    using assms by (simp add: extract_pins_from_ocr_def names_of_pairs_def)
next
  assume ne: "pairs \<noteq> []"
  define ks where "ks = sort (map fst (cleaned_of pairs))"
  define names where "names = map (dict_get (cleaned_of pairs)) ks"
  have e: "extract_pins_from_ocr (Some recognized) = Some names"
    using ne assms by (simp add: extract_pins_from_ocr_def names_of_pairs_def names_def ks_def)
  have s: "sorted_wrt (<) ks"
    using cleaned_of_distinct [of pairs] by (simp add: ks_def strict_sorted_iff)
  have k: "set ks = fst ` set pairs" using cleaned_of_keys [of pairs] by (simp add: ks_def)
  have l: "length names = length ks" by (simp add: names_def)
  have a: "\<exists>j<length pairs. pairs ! j = (ks ! i, names ! i)
             \<and> (\<forall>j'<length pairs. j < j' \<longrightarrow> fst (pairs ! j') \<noteq> ks ! i)"
    if i: "i < length ks" for i
  proof -
    from i have "ks ! i \<in> set ks" by simp
    then have "ks ! i \<in> fst ` set (cleaned_of pairs)" by (simp add: ks_def)
    then obtain v where v: "map_of (cleaned_of pairs) (ks ! i) = Some v"
      by (metis domD dom_map_of_conv_image_fst)
    with i have "names ! i = v" by (simp add: names_def dict_get_def)
    with cleaned_of_last_index [OF v] show ?thesis by simp
  qed
  from e s k l a show "\<exists>names ks.
       extract_pins_from_ocr (Some recognized) = Some names
       \<and> sorted_wrt (<) ks \<and> set ks = fst ` set pairs \<and> length names = length ks
       \<and> (\<forall>i<length ks. \<exists>j<length pairs.
              pairs ! j = (ks ! i, names ! i)
              \<and> (\<forall>j'<length pairs. j < j' \<longrightarrow> fst (pairs ! j') \<noteq> ks ! i))"
    by blast
qed

theorem diagram_last_write_sorted_witness:
  "pairs_A diagram_sample @ pairs_B diagram_sample = [(1, ''VDD''), (2, ''GND''), (2, ''SDA'')]
   \<and> extract_pins_from_ocr (Some diagram_sample) = Some [''VDD'', ''SDA'']
   \<and> (\<exists>names ks.
         extract_pins_from_ocr (Some diagram_sample) = Some names
         \<and> sorted_wrt (<) ks
         \<and> set ks = fst ` set [(1, ''VDD''), (2, ''GND''), (2 :: int, ''SDA'')]
         \<and> length names = length ks
         \<and> (\<forall>i<length ks. \<exists>j<length [(1, ''VDD''), (2, ''GND''), (2 :: int, ''SDA'')].
                [(1, ''VDD''), (2, ''GND''), (2, ''SDA'')] ! j = (ks ! i, names ! i)
                \<and> (\<forall>j'<length [(1, ''VDD''), (2, ''GND''), (2 :: int, ''SDA'')].
                      j < j' \<longrightarrow> fst ([(1, ''VDD''), (2, ''GND''), (2 :: int, ''SDA'')] ! j') \<noteq> ks ! i)))"
proof -
  have p: "[(1, ''VDD''), (2, ''GND''), (2, ''SDA'')]
           = pairs_A diagram_sample @ pairs_B diagram_sample"
    by code_simp
  have e: "extract_pins_from_ocr (Some diagram_sample) = Some [''VDD'', ''SDA'']"
    by code_simp
  have n: "[(1 :: int, ''VDD''), (2, ''GND''), (2, ''SDA'')] \<noteq> []" by simp
  from diagram_last_write_sorted [OF p] n
  have "\<exists>names ks.
         extract_pins_from_ocr (Some diagram_sample) = Some names
         \<and> sorted_wrt (<) ks
         \<and> set ks = fst ` set [(1, ''VDD''), (2, ''GND''), (2 :: int, ''SDA'')]
         \<and> length names = length ks
         \<and> (\<forall>i<length ks. \<exists>j<length [(1, ''VDD''), (2, ''GND''), (2 :: int, ''SDA'')].
                [(1, ''VDD''), (2, ''GND''), (2, ''SDA'')] ! j = (ks ! i, names ! i)
                \<and> (\<forall>j'<length [(1, ''VDD''), (2, ''GND''), (2 :: int, ''SDA'')].
                      j < j' \<longrightarrow> fst ([(1, ''VDD''), (2, ''GND''), (2 :: int, ''SDA'')] ! j') \<noteq> ks ! i))"
    by blast
  with p e show ?thesis by simp
qed

subsection \<open>Orchestrator\<close>

lemma try_strategies_cases:
  "try_strategies T D X doc =
     (if has_pins (T doc) then (T doc, [TableStrategy])
      else if yields_names (D doc)
      then (Some \<lparr>pins = number_pins (the (D doc)), metadata = None\<rparr>,
            [TableStrategy, DiagramStrategy])
      else if yields_names (X doc)
      then (Some \<lparr>pins = number_pins (the (X doc)), metadata = None\<rparr>,
            [TableStrategy, DiagramStrategy, TextStrategy])
      else (None, [TableStrategy, DiagramStrategy, TextStrategy]))"
  unfolding try_strategies_def yields_names_def Let_def
  by (simp split: option.splits list.splits)

text \<open>
  C2. For every document: when the structural-table strategy returns at least one pin, the
  orchestrator returns that result and has called the table strategy only; when it does
  not and the diagram strategy yields a name, the orchestrator has called these two
  strategies only and returns the numbered names; when none of the three yields a pin,
  the orchestrator returns no result.
\<close>

theorem strategy_precedence:
  "(has_pins (extract_pins_from_tables scan_metadata (pdf_pages doc))
      \<longrightarrow> extract_pins_traditional scan_metadata doc
            = (extract_pins_from_tables scan_metadata (pdf_pages doc), [TableStrategy]))
   \<and> (\<not> has_pins (extract_pins_from_tables scan_metadata (pdf_pages doc))
        \<and> yields_names (extract_pins_from_ocr (diagram_text doc))
      \<longrightarrow> extract_pins_traditional scan_metadata doc
            = (Some \<lparr>pins = number_pins (the (extract_pins_from_ocr (diagram_text doc))),
                     metadata = None\<rparr>,
               [TableStrategy, DiagramStrategy]))
   \<and> (\<not> has_pins (extract_pins_from_tables scan_metadata (pdf_pages doc))
        \<and> \<not> yields_names (extract_pins_from_ocr (diagram_text doc))
        \<and> \<not> yields_names (extract_pins_from_text (ocr_text doc))
      \<longrightarrow> extract_pins_traditional scan_metadata doc
            = (None, [TableStrategy, DiagramStrategy, TextStrategy]))"
  unfolding extract_pins_traditional_def by (simp add: try_strategies_cases)

theorem strategy_precedence_witness:
  "extract_pins_traditional sample_scan doc_with_table = (Some merge_result, [TableStrategy])
   \<and> extract_pins_traditional sample_scan doc_with_diagram
       = (Some \<lparr>pins = number_pins [''VDD'', ''SDA''], metadata = None\<rparr>,
          [TableStrategy, DiagramStrategy])
   \<and> extract_pins_traditional sample_scan doc_empty
       = (None, [TableStrategy, DiagramStrategy, TextStrategy])"
proof -
  have t1: "extract_pins_from_tables sample_scan (pdf_pages doc_with_table) = Some merge_result"
    by code_simp
  have h1: "has_pins (Some merge_result)" by code_simp
  have h2: "\<not> has_pins (extract_pins_from_tables sample_scan (pdf_pages doc_with_diagram))"
    by code_simp
  have d2: "extract_pins_from_ocr (diagram_text doc_with_diagram) = Some [''VDD'', ''SDA'']"
    by code_simp
  have h3: "\<not> has_pins (extract_pins_from_tables sample_scan (pdf_pages doc_empty))"
    by code_simp
  have d3: "\<not> yields_names (extract_pins_from_ocr (diagram_text doc_empty))" by code_simp
  have x3: "\<not> yields_names (extract_pins_from_text (ocr_text doc_empty))" by code_simp
  have y2: "yields_names (Some [''VDD'', ''SDA''])" by (simp add: yields_names_def)
  from strategy_precedence [of sample_scan doc_with_table]
    strategy_precedence [of sample_scan doc_with_diagram]
    strategy_precedence [of sample_scan doc_empty]
    t1 h1 h2 d2 y2 h3 d3 x3
  show ?thesis by simp
qed



subsection \<open>Concrete scenarios\<close>

text \<open>
  C6. The table with header row PIN#, NAME, I/O TYPE and the data row 3, SDA, Digital I/O:
  the header I/O TYPE fills both the type and the direction role with column 2, the table
  gives the single candidate 3, and a document with this table on its only page (whose
  text is the two lines of the table) gives exactly one pin: number 3, name SDA, details
  type Digital and direction I/O.
\<close>

theorem io_type_scenario:
  "classify_headers (fst (select_headers io_type_table))
     = \<lparr>pin_idx = Some 0, name_idx = Some 1, type_idx = Some 2, direction_idx = Some 2,
        description_idx = None\<rparr>
   \<and> table_candidates io_type_table = [(3, sda_pin)]
   \<and> extract_pins_from_tables scan_metadata (Some io_type_pages)
       = Some \<lparr>pins = [sda_pin], metadata = Some (scan_metadata io_type_text)\<rparr>
   \<and> sda_pin = \<lparr>number = Num 3, name = ''SDA'',
                 details = Some [(''type'', Text ''Digital''), (''direction'', Text ''I/O'')]\<rparr>"
proof -
  have c: "classify_headers (fst (select_headers io_type_table))
           = \<lparr>pin_idx = Some 0, name_idx = Some 1, type_idx = Some 2, direction_idx = Some 2,
              description_idx = None\<rparr>" by code_simp
  have t: "table_candidates io_type_table = [(3, sda_pin)]" by code_simp
  have e: "extract_pins_from_tables scan_metadata (Some io_type_pages)
           = Some \<lparr>pins = [sda_pin], metadata = Some (scan_metadata io_type_text)\<rparr>"
    by code_simp
  from c t e show ?thesis by (simp add: sda_pin_def)
qed

text \<open>
  C7. On the recognized text with the line "VDD 1" followed by the line "2 SDA" the
  diagram strategy returns the single name "2": the number-then-name shape matches "1",
  the line break and "2", and this pair for pin 1 overwrites the pair of "VDD". With the
  two lines in the other order it returns VDD, SDA. The orchestrator numbers a list of
  names from 1 in list order, with no details and no metadata.
\<close>

theorem diagram_scenario:
  "pairs_A diagram_lines = [(1, ''VDD'')]
   \<and> pairs_B diagram_lines = [(1, ''2'')]
   \<and> extract_pins_from_ocr (Some diagram_lines) = Some [''2'']
   \<and> extract_pins_traditional sample_scan doc_diagram_lines
       = (Some \<lparr>pins = [\<lparr>number = Num 1, name = ''2'', details = None\<rparr>], metadata = None\<rparr>,
          [TableStrategy, DiagramStrategy])
   \<and> extract_pins_from_ocr (Some diagram_lines_swapped) = Some [''VDD'', ''SDA'']
   \<and> number_pins [''VDD'', ''SDA'']
       = [\<lparr>number = Num 1, name = ''VDD'', details = None\<rparr>,
          \<lparr>number = Num 2, name = ''SDA'', details = None\<rparr>]"
proof -
  have a: "pairs_A diagram_lines = [(1, ''VDD'')]" by code_simp
  have b: "pairs_B diagram_lines = [(1, ''2'')]" by code_simp
  have e: "extract_pins_from_ocr (Some diagram_lines) = Some [''2'']" by code_simp
  have o: "extract_pins_traditional sample_scan doc_diagram_lines
           = (Some \<lparr>pins = [\<lparr>number = Num 1, name = ''2'', details = None\<rparr>], metadata = None\<rparr>,
              [TableStrategy, DiagramStrategy])" by code_simp
  have s: "extract_pins_from_ocr (Some diagram_lines_swapped) = Some [''VDD'', ''SDA'']"
    by code_simp
  have n: "number_pins [''VDD'', ''SDA'']
           = [\<lparr>number = Num 1, name = ''VDD'', details = None\<rparr>,
              \<lparr>number = Num 2, name = ''SDA'', details = None\<rparr>]" by code_simp
  from a b e o s n show ?thesis by simp
qed

subsection \<open>Language-model mode\<close>

text \<open>
  C5. Whatever the pages give, the list returned under "pins" is empty: the pins of the
  pages are collected, page by page and in page order, in the page results only, where a
  page with an error contributes nothing and does not stop the pages after it.
\<close>

theorem llm_pins_stay_empty:
  assumes "extract_pins_with_llm b pdf = Some res"
  shows "llm_pins res = []
         \<and> llm_results res
             = List.map_filter (\<lambda>pd. process_page_with_llm b (pd_text pd) (pd_page_number pd))
                 (extract_text_from_pdf pdf)"
  using assms unfolding extract_pins_with_llm_def Let_def
  by (auto split: if_splits)

theorem llm_pins_stay_empty_witness:
  "extract_pins_with_llm (Provider flaky_provider) (Some three_text_pages)
     = Some \<lparr>success = True, total_pages = 3, pages_with_pins = 1, llm_pins = [],
             llm_results = [[vdd_pin]]\<rparr>
   \<and> llm_pins \<lparr>success = True, total_pages = 3, pages_with_pins = 1, llm_pins = [],
               llm_results = [[vdd_pin]]\<rparr> = []
   \<and> flaky_provider ''Pin 1 VDD'' 3 = Validated [vdd_pin]"
proof -
  have e: "extract_pins_with_llm (Provider flaky_provider) (Some three_text_pages)
           = Some \<lparr>success = True, total_pages = 3, pages_with_pins = 1, llm_pins = [],
                   llm_results = [[vdd_pin]]\<rparr>" by code_simp
  have f: "flaky_provider ''Pin 1 VDD'' 3 = Validated [vdd_pin]"
    by (simp add: flaky_provider_def)
  from llm_pins_stay_empty [OF e] have
    "llm_pins \<lparr>success = True, total_pages = 3, pages_with_pins = 1, llm_pins = [],
               llm_results = [[vdd_pin]]\<rparr> = []" by (rule conjunct1)
  with e f show ?thesis by blast
qed

text \<open>
  C10. In language-model mode the variable \<^verbatim>\<open>metadata\<close> is never assigned. For every
  extractor whose result is successful and has at least one pin, \<^verbatim>\<open>main\<close> reaches the
  output step and raises \<^verbatim>\<open>UnboundLocalError\<close>, with or without \<^verbatim>\<open>--json-only\<close>, instead of
  printing the JSON.
\<close>

theorem llm_output_unbound_metadata:
  assumes "arg_method a = Llm"
    and "arg_convert a = None"
    and "with_llm doc = Some res"
    and "success res"
    and "llm_pins res \<noteq> []"
  shows "main_with with_llm traditional convert a (Some doc)
         = Raised (UnboundLocalError ''metadata'')"
  using assms unfolding main_with_def output_results_def
  by (cases "llm_pins res") simp_all

theorem llm_output_unbound_metadata_witness:
  "main_with (\<lambda>d. Some one_pin_result) (\<lambda>d. None) (\<lambda>d. True) llm_args (Some doc_empty)
     = Raised (UnboundLocalError ''metadata'')
   \<and> main_with (\<lambda>d. Some one_pin_result) (\<lambda>d. None) (\<lambda>d. True) llm_json_args (Some doc_empty)
       = Raised (UnboundLocalError ''metadata'')"
proof -
  have s: "success one_pin_result" "llm_pins one_pin_result \<noteq> []"
    by (simp_all add: one_pin_result_def)
  have a: "arg_method llm_args = Llm" "arg_convert llm_args = None"
    "arg_method llm_json_args = Llm" "arg_convert llm_json_args = None"
    by (simp_all add: llm_args_def llm_json_args_def)
  from llm_output_unbound_metadata
         [of llm_args "\<lambda>d. Some one_pin_result" doc_empty one_pin_result, OF a(1,2) refl s]
       llm_output_unbound_metadata
         [of llm_json_args "\<lambda>d. Some one_pin_result" doc_empty one_pin_result, OF a(3,4) refl s]
  show ?thesis by simp
qed

text \<open>
  With the program's own language-model extractor the pin list is always empty, so
  \<^verbatim>\<open>main\<close> in this mode never reaches the output step: it exits with code 1.
\<close>

lemma llm_mode_exits_1:
  assumes "arg_method a = Llm" and "arg_convert a = None"
  shows "main scan_metadata b convert a download = Exit 1 None"
proof (cases download)
  case None
  then show ?thesis by (simp add: main_def main_with_def)
next
  case (Some doc)
  show ?thesis
  proof (cases "extract_pins_with_llm b (pdf_pages doc)")
    case None
    with Some assms show ?thesis by (simp add: main_def main_with_def)
  next
    case (Some res)
    then have "llm_pins res = []"
      unfolding extract_pins_with_llm_def Let_def by (auto split: if_splits)
    with Some \<open>download = Some doc\<close> assms show ?thesis
      by (simp add: main_def main_with_def)
  qed
qed

end
